theory Spec2Isabelle
  imports Complex_Main "HOL-Library.Product_Lexorder" "HOL-Library.AList"
begin

section \<open>Data model\<close>

text \<open>
  The dashboard script \<^verbatim>\<open>app.py\<close> talks to three libraries (requests, pandas, numpy) and
  to the Streamlit page. The embedding keeps the script's own control flow and makes the
  rest explicit:
  \<^item> a Python exception is a value \<open>Exn class message\<close> (the message texts are
    indicative); a computation that may raise returns \<open>py_exn + 'a\<close> with \<open>Inl\<close> for
    the exception;
  \<^item> a Python \<^verbatim>\<open>float\<close> is a \<open>real\<close>, and a cell of a float column is a
    \<open>real option\<close> with \<open>None\<close> for NaN (rounding is not modelled);
  \<^item> a pandas timestamp is a calendar date \<open>(year, month, day)\<close>, ordered
    lexicographically;
  \<^item> what the script does to the outside world (page output, HTTP requests, reseeding of
    numpy's global generator) is appended to a trace carried in the \<open>world\<close>, next to the
    state of numpy's global generator;
  \<^item> the library functions whose result the script cannot determine (the HTTP server's
    answer, pandas' token grammars, numpy's generator) are fields of an environment
    record \<open>env\<close> that every function takes as its first argument;
  \<^item> the \<^verbatim>\<open>st.cache_data\<close> decorator is not modelled: every call runs the function body.
  Non-ASCII letters of the Portuguese literals are written without their accents.
\<close>

datatype py_exn = Exn string string

fun str_exn :: "py_exn \<Rightarrow> string" where
  "str_exn (Exn cls msg) = msg"

type_synonym date = "nat \<times> nat \<times> nat"

definition year :: "date \<Rightarrow> nat" where
  "year d = fst d"

definition month :: "date \<Rightarrow> nat" where
  "month d = fst (snd d)"

definition day :: "date \<Rightarrow> nat" where
  "day d = snd (snd d)"

datatype json =
    JNull
  | JBool bool
  | JNum real
  | JStr string
  | JArr "json list"
  | JObj "(string \<times> json) list"

text \<open>
  A \<^verbatim>\<open>pandas.DataFrame\<close> with a date index and float columns: the index labels and, for
  each column name in order, the cells of that column. \<^verbatim>\<open>pd.DataFrame()\<close> has neither
  rows nor columns; \<^verbatim>\<open>df.empty\<close> holds when either axis has length zero.
\<close>

record frame =
  index :: "date list"
  columns :: "(string \<times> real option list) list"

definition DataFrame_empty :: frame where
  "DataFrame_empty = \<lparr>index = [], columns = []\<rparr>"

definition empty :: "frame \<Rightarrow> bool" where
  "empty df = (index df = [] \<or> columns df = [])"

record response =
  status_code :: int
  json_body :: "py_exn + json"

datatype event =
    Http_get string
  | Np_random_seed nat
  | St_error string
  | St_warning string
  | St_subheader string
  | St_plotly_chart
  | St_dataframe
  | St_markdown string
  | St_metric string
  | St_write string

record 'r world =
  trace :: "event list"
  rng :: 'r

definition emit :: "event \<Rightarrow> 'r world \<Rightarrow> 'r world" where
  "emit ev w = w\<lparr>trace := trace w @ [ev]\<rparr>"

text \<open>
  The library behaviour the script depends on but does not determine:
  \<^item> \<open>requests_get url\<close>: the outcome of \<^verbatim>\<open>requests.get(url)\<close>, an exception or a response;
  \<^item> \<open>to_datetime col\<close>: \<^verbatim>\<open>pd.to_datetime\<close> on a column of strings (it raises when a
    token is not a date);
  \<^item> \<open>str_to_float tok\<close>: the float that \<^verbatim>\<open>pd.to_numeric\<close> reads from one token,
    \<open>None\<close> when the token is not numeric;
  \<^item> \<open>pandas_other obs\<close>: what lines 50-54 compute (index and \<^verbatim>\<open>value\<close> column, or an
    exception) when the payload under \<^verbatim>\<open>observations\<close> is not a list of records with string
    fields \<^verbatim>\<open>date\<close> and \<^verbatim>\<open>value\<close>;
  \<^item> \<open>DataFrame_other d\<close>: \<^verbatim>\<open>pd.DataFrame(d)\<close> for a dict of series whose indexes differ
    while some of them repeat a label and each of those holds every label of the dict;
  \<^item> \<open>np_seed n\<close>: the generator state after \<^verbatim>\<open>np.random.seed(n)\<close>;
  \<^item> \<open>np_normal1 loc scale s\<close>: one draw of \<^verbatim>\<open>np.random.normal(loc, scale)\<close> from state
    \<open>s\<close>, with the state after it.
\<close>

record 'r env =
  requests_get :: "string \<Rightarrow> py_exn + response"
  to_datetime :: "string list \<Rightarrow> py_exn + date list"
  str_to_float :: "string \<Rightarrow> real option"
  pandas_other :: "json \<Rightarrow> py_exn + (date list \<times> real option list)"
  DataFrame_other :: "(string \<times> date list \<times> real option list) list \<Rightarrow> py_exn + frame"
  np_seed :: "nat \<Rightarrow> 'r"
  np_normal1 :: "real \<Rightarrow> real \<Rightarrow> 'r \<Rightarrow> real \<times> 'r"

section \<open>Python operations used by the script\<close>

text \<open>Truth value of \<^verbatim>\<open>if api_key:\<close> for a value that is \<^verbatim>\<open>None\<close> or a string.\<close>

definition truthy :: "string option \<Rightarrow> bool" where
  "truthy k = (case k of None \<Rightarrow> False | Some s \<Rightarrow> s \<noteq> [])"

text \<open>\<^verbatim>\<open>sub in s\<close> on strings: \<open>sub\<close> occurs in \<open>s\<close> as a contiguous block.\<close>

fun str_contains :: "string \<Rightarrow> string \<Rightarrow> bool" where
  "str_contains sub [] = (sub = [])"
| "str_contains sub (c # cs) = (take (length sub) (c # cs) = sub \<or> str_contains sub cs)"

text \<open>
  \<^verbatim>\<open>key in data\<close> for a decoded JSON value: key membership for a dict, element
  membership for a list, substring test for a string, \<^verbatim>\<open>TypeError\<close> otherwise.
\<close>

fun py_in :: "string \<Rightarrow> json \<Rightarrow> py_exn + bool" where
  "py_in k (JObj kvs) = Inr (k \<in> set (map fst kvs))"
| "py_in k (JArr xs) = Inr (JStr k \<in> set xs)"
| "py_in k (JStr s) = Inr (str_contains k s)"
| "py_in k _ = Inl (Exn ''TypeError'' ''argument is not iterable'')"

text \<open>\<^verbatim>\<open>data[key]\<close> with a string key: only a dict can be indexed by a string.\<close>

fun py_getitem :: "json \<Rightarrow> string \<Rightarrow> py_exn + json" where
  "py_getitem (JObj kvs) k =
     (case map_of kvs k of None \<Rightarrow> Inl (Exn ''KeyError'' k) | Some v \<Rightarrow> Inr v)"
| "py_getitem _ k = Inl (Exn ''TypeError'' ''indices must be integers'')"

section \<open>Remote Fetcher\<close>

text \<open>The request URL of lines 40-44, an f-string over the arguments.\<close>

definition fred_url :: "string \<Rightarrow> string \<Rightarrow> string \<Rightarrow> string option \<Rightarrow> string" where
  "fred_url series_id start_date end_date api_key =
     (if truthy api_key
      then ''https://api.stlouisfed.org/fred/series/observations?series_id='' @ series_id
           @ ''&api_key='' @ the api_key
           @ ''&file_type=json&observation_start='' @ start_date
           @ ''&observation_end='' @ end_date
      else ''https://api.stlouisfed.org/fred/series/observations?series_id='' @ series_id
           @ ''&file_type=json&observation_start='' @ start_date
           @ ''&observation_end='' @ end_date)"

text \<open>
  One observation record as the upstream API sends it: a dict with string fields
  \<^verbatim>\<open>date\<close> and \<^verbatim>\<open>value\<close> (other fields, such as \<^verbatim>\<open>realtime_start\<close>, are allowed and
  ignored by line 54). \<open>obs_records\<close> recognises a list of such records and returns
  their \<open>(date, value)\<close> tokens.
\<close>

fun obs_record :: "json \<Rightarrow> (string \<times> string) option" where
  "obs_record (JObj kvs) =
     (case (map_of kvs ''date'', map_of kvs ''value'') of
        (Some (JStr d), Some (JStr v)) \<Rightarrow> Some (d, v)
      | _ \<Rightarrow> None)"
| "obs_record _ = None"

fun obs_records :: "json \<Rightarrow> (string \<times> string) list option" where
  "obs_records (JArr xs) =
     (if list_all (\<lambda>x. obs_record x \<noteq> None) xs then Some (map (the \<circ> obs_record) xs)
      else None)"
| "obs_records _ = None"

text \<open>
  \<^verbatim>\<open>pd.to_numeric(col, errors='coerce')\<close> on a column of strings: each token on its own,
  a token that is not numeric becomes NaN.
\<close>

definition to_numeric_coerce :: "'r env \<Rightarrow> string list \<Rightarrow> real option list" where
  "to_numeric_coerce E col = map (str_to_float E) col"

text \<open>
  Lines 50-54. For a list of records: an empty list gives a frame without columns, so
  \<^verbatim>\<open>df['date']\<close> raises \<^verbatim>\<open>KeyError\<close>; otherwise the dates are parsed (which may raise),
  the values are coerced, and the result is the \<^verbatim>\<open>value\<close> column indexed by date.
\<close>

definition observations_frame :: "'r env \<Rightarrow> json \<Rightarrow> py_exn + frame" where
  "observations_frame E obs =
     (case obs_records obs of
        None \<Rightarrow>
          (case pandas_other E obs of
             Inl e \<Rightarrow> Inl e
           | Inr (ds, vs) \<Rightarrow> Inr \<lparr>index = ds, columns = [(''value'', vs)]\<rparr>)
      | Some recs \<Rightarrow>
          if recs = [] then Inl (Exn ''KeyError'' ''date'')
          else
            (case to_datetime E (map fst recs) of
               Inl e \<Rightarrow> Inl e
             | Inr ds \<Rightarrow>
                 Inr \<lparr>index = ds,
                      columns = [(''value'', to_numeric_coerce E (map snd recs))]\<rparr>))"

text \<open>The body of the \<^verbatim>\<open>try\<close> block after the URL is built (lines 46-55).\<close>

definition fetch_try :: "'r env \<Rightarrow> string \<Rightarrow> py_exn + frame" where
  "fetch_try E url =
     (case requests_get E url of
        Inl e \<Rightarrow> Inl e
      | Inr response \<Rightarrow>
          if status_code response = 200 then
            (case json_body response of
               Inl e \<Rightarrow> Inl e
             | Inr data \<Rightarrow>
                 (case py_in ''observations'' data of
                    Inl e \<Rightarrow> Inl e
                  | Inr True \<Rightarrow>
                      (case py_getitem data ''observations'' of
                         Inl e \<Rightarrow> Inl e
                       | Inr obs \<Rightarrow> observations_frame E obs)
                  | Inr False \<Rightarrow> Inr DataFrame_empty))
          else Inr DataFrame_empty)"

text \<open>
  \<^verbatim>\<open>fetch_fred_data_api\<close> (lines 27-58): the request is sent, and an exception of the
  \<^verbatim>\<open>try\<close> block is caught, reported with \<^verbatim>\<open>st.error\<close> and replaced by \<^verbatim>\<open>pd.DataFrame()\<close>.
\<close>

definition fetch_fred_data_api ::
  "'r env \<Rightarrow> string \<Rightarrow> string \<Rightarrow> string \<Rightarrow> string option \<Rightarrow> 'r world \<Rightarrow> frame \<times> 'r world" where
  "fetch_fred_data_api E series_id start_date end_date api_key w =
     (let url = fred_url series_id start_date end_date api_key;
          w1 = emit (Http_get url) w
      in case fetch_try E url of
           Inr df \<Rightarrow> (df, w1)
         | Inl e \<Rightarrow>
             (DataFrame_empty,
              emit (St_error (''Erro ao buscar dados via API: '' @ str_exn e)) w1))"

section \<open>Synthetic Generator\<close>

text \<open>
  \<^verbatim>\<open>pd.date_range(start, end, freq='M')\<close>: the month ends between \<open>start\<close> and \<open>end\<close>,
  both included, in increasing order. Months are counted as \<open>12 * year + (month - 1)\<close>.
\<close>

definition is_leap :: "nat \<Rightarrow> bool" where
  "is_leap y = (y mod 4 = 0 \<and> (y mod 100 \<noteq> 0 \<or> y mod 400 = 0))"

definition days_in_month :: "nat \<Rightarrow> nat \<Rightarrow> nat" where
  "days_in_month y m =
     (if m = 2 then (if is_leap y then 29 else 28)
      else if m = 4 \<or> m = 6 \<or> m = 9 \<or> m = 11 then 30
      else 31)"

definition month_end :: "nat \<Rightarrow> date" where
  "month_end k = (k div 12, k mod 12 + 1, days_in_month (k div 12) (k mod 12 + 1))"

definition month_number :: "date \<Rightarrow> nat" where
  "month_number d = 12 * year d + (month d - 1)"

definition date_range :: "date \<Rightarrow> date \<Rightarrow> date list" where
  "date_range start_date end_date =
     filter (\<lambda>d. start_date \<le> d \<and> d \<le> end_date)
       (map month_end [month_number start_date ..< Suc (month_number end_date)])"

text \<open>\<^verbatim>\<open>np.random.normal(loc, scale, n)\<close>: \<open>n\<close> draws, one after the other.\<close>

fun np_normal :: "'r env \<Rightarrow> real \<Rightarrow> real \<Rightarrow> nat \<Rightarrow> 'r \<Rightarrow> real list \<times> 'r" where
  "np_normal E loc scale 0 s = ([], s)"
| "np_normal E loc scale (Suc n) s =
     (let (x, s1) = np_normal1 E loc scale s;
          (xs, s2) = np_normal E loc scale n s1
      in (x # xs, s2))"

definition base_delinquency :: real where
  "base_delinquency = 3.5"

definition base_chargeoff :: real where
  "base_chargeoff = 4.2"

text \<open>
  Lines 92-93: the two arrays of base value plus noise, drawn one after the other from
  generator state \<open>s\<close>.
\<close>

definition base_plus_noise :: "'r env \<Rightarrow> nat \<Rightarrow> 'r \<Rightarrow> (real list \<times> real list) \<times> 'r" where
  "base_plus_noise E n s =
     (let (zs1, s1) = np_normal E 0 1.5 n s;
          delinquency_rates = map (\<lambda>z. base_delinquency + z) zs1;
          (zs2, s2) = np_normal E 0 1.8 n s1;
          chargeoff_rates = map (\<lambda>z. base_chargeoff + z) zs2
      in ((delinquency_rates, chargeoff_rates), s2))"

text \<open>
  Lines 96-102: the loop over \<^verbatim>\<open>enumerate(dates)\<close>, updating both arrays in place at
  index \<open>i\<close>.
\<close>

fun crisis_peaks :: "(nat \<times> date) list \<Rightarrow> real list \<times> real list \<Rightarrow> real list \<times> real list" where
  "crisis_peaks [] (delinquency_rates, chargeoff_rates) = (delinquency_rates, chargeoff_rates)"
| "crisis_peaks ((i, d) # rest) (delinquency_rates, chargeoff_rates) =
     (if 2008 \<le> year d \<and> year d \<le> 2010 then
        crisis_peaks rest
          (delinquency_rates[i := delinquency_rates ! i + 2.5],
           chargeoff_rates[i := chargeoff_rates ! i + 3.0])
      else if year d = 2020 then
        crisis_peaks rest
          (delinquency_rates[i := delinquency_rates ! i + 1.5],
           chargeoff_rates[i := chargeoff_rates ! i + 2.0])
      else crisis_peaks rest (delinquency_rates, chargeoff_rates))"

text \<open>\<^verbatim>\<open>np.maximum(arr, c)\<close>: the elementwise maximum of an array and a scalar.\<close>

definition np_maximum :: "real list \<Rightarrow> real \<Rightarrow> real list" where
  "np_maximum arr c = map (\<lambda>x. max x c) arr"

definition name_delinquency :: string where
  "name_delinquency = ''Taxa de Inadimplencia (%)''"

definition name_chargeoff :: string where
  "name_chargeoff = ''Taxa de Baixa por Prejuizo (%)''"

text \<open>
  \<^verbatim>\<open>create_sample_data\<close> (lines 79-113). The call reseeds numpy's global generator, so
  the world it returns has a new generator state and one more trace entry.
\<close>

definition create_sample_data :: "'r env \<Rightarrow> date \<Rightarrow> date \<Rightarrow> 'r world \<Rightarrow> frame \<times> 'r world" where
  "create_sample_data E start_date end_date w =
     (let dates = date_range start_date end_date;
          w1 = (emit (Np_random_seed 42) w)\<lparr>rng := np_seed E 42\<rparr>;
          ((delinquency_rates, chargeoff_rates), s) = base_plus_noise E (length dates) (rng w1);
          (delinquency_rates1, chargeoff_rates1) =
             crisis_peaks (enumerate 0 dates) (delinquency_rates, chargeoff_rates);
          delinquency_rates2 = np_maximum delinquency_rates1 0.5;
          chargeoff_rates2 = np_maximum chargeoff_rates1 0.5;
          df = \<lparr>index = dates,
                columns = [(name_delinquency, map Some delinquency_rates2),
                           (name_chargeoff, map Some chargeoff_rates2)]\<rparr>
      in (df, w1\<lparr>rng := s\<rparr>))"

section \<open>Orchestrator\<close>

definition SERIES_IDS :: "(string \<times> string) list" where
  "SERIES_IDS = [(name_delinquency, ''DRCCLACBS''), (name_chargeoff, ''CORCCACBS'')]"

text \<open>The widget values the block of lines 191-287 reads.\<close>

record config =
  start_date :: date
  end_date :: date
  data_source :: string
  fred_api_key :: "string option"

text \<open>
  \<^verbatim>\<open>d.strftime('%Y-%m-%d')\<close>, for the years of four digits that the date pickers allow
  (from 1980 on).
\<close>

definition digit :: "nat \<Rightarrow> char" where
  "digit n = char_of (48 + n mod 10)"

definition strftime_ymd :: "date \<Rightarrow> string" where
  "strftime_ymd d =
     [digit (year d div 1000), digit (year d div 100), digit (year d div 10), digit (year d)]
     @ ''-'' @ [digit (month d div 10), digit (month d)]
     @ ''-'' @ [digit (day d div 10), digit (day d)]"

text \<open>
  \<^verbatim>\<open>df[name]\<close>: the column as a series (its index and its cells), \<^verbatim>\<open>KeyError\<close> when the
  frame has no such column.
\<close>

definition frame_getitem :: "frame \<Rightarrow> string \<Rightarrow> py_exn + (date list \<times> real option list)" where
  "frame_getitem df name =
     (case map_of (columns df) name of
        None \<Rightarrow> Inl (Exn ''KeyError'' name)
      | Some vs \<Rightarrow> Inr (index df, vs))"

text \<open>
  The loop of lines 198-206 over the remaining items of \<^verbatim>\<open>SERIES_IDS\<close>: each series is
  fetched, and a non-empty result is stored in the dict \<^verbatim>\<open>all_series\<close> under its display
  name.
\<close>

fun fetch_all ::
  "'r env \<Rightarrow> (string \<times> string) list \<Rightarrow> config \<Rightarrow>
   (string \<times> date list \<times> real option list) list \<Rightarrow> 'r world \<Rightarrow>
   (py_exn + (string \<times> date list \<times> real option list) list) \<times> 'r world" where
  "fetch_all E [] cfg all_series w = (Inr all_series, w)"
| "fetch_all E ((name, series_id) # rest) cfg all_series w =
     (let (series_data, w1) =
            fetch_fred_data_api E series_id (strftime_ymd (start_date cfg))
              (strftime_ymd (end_date cfg)) (fred_api_key cfg) w
      in if \<not> empty series_data then
           (case frame_getitem series_data ''value'' of
              Inl e \<Rightarrow> (Inl e, w1)
            | Inr col \<Rightarrow> fetch_all E rest cfg (AList.update name col all_series) w1)
         else fetch_all E rest cfg all_series w1)"

text \<open>
  \<^verbatim>\<open>pd.DataFrame(all_series)\<close> for a dict of series. When all series carry the same index
  it is kept as it is. Otherwise the rows are the union of the indexes, sorted, and each
  series is reindexed to it: a label the series does not have gets NaN. Reindexing a
  series that repeats a label to an index other than its own raises \<^verbatim>\<open>ValueError\<close>; this
  is certain to happen when the dict holds a label that such a series does not have.
\<close>

definition all_labels :: "(string \<times> date list \<times> real option list) list \<Rightarrow> date list" where
  "all_labels all_series = concat (map (\<lambda>(name, col). fst col) all_series)"

definition reindex :: "date list \<times> real option list \<Rightarrow> date list \<Rightarrow> real option list" where
  "reindex col ix =
     map (\<lambda>d. case map_of (zip (fst col) (snd col)) d of None \<Rightarrow> None | Some v \<Rightarrow> v) ix"

definition DataFrame_dict ::
  "'r env \<Rightarrow> (string \<times> date list \<times> real option list) list \<Rightarrow> py_exn + frame" where
  "DataFrame_dict E all_series =
     (case all_series of
        [] \<Rightarrow> Inr DataFrame_empty
      | (name0, col0) # _ \<Rightarrow>
          if list_all (\<lambda>(name, col). fst col = fst col0) all_series then
            Inr \<lparr>index = fst col0, columns = map (\<lambda>(name, col). (name, snd col)) all_series\<rparr>
          else if list_all (\<lambda>(name, col). distinct (fst col)) all_series then
            (let ix = sort (remdups (all_labels all_series))
             in Inr \<lparr>index = ix,
                     columns = map (\<lambda>(name, col). (name, reindex col ix)) all_series\<rparr>)
          else if list_ex (\<lambda>(name, col). \<not> distinct (fst col)
                                       \<and> set (fst col) \<noteq> set (all_labels all_series))
                    all_series then
            Inl (Exn ''ValueError'' ''cannot reindex on an axis with duplicate labels'')
          else DataFrame_other E all_series)"

definition msg_no_key :: string where
  "msg_no_key = ''Chave da API FRED nao fornecida. Usando dados simulados para demonstracao.''"

definition msg_no_data :: string where
  "msg_no_data = ''Nao foi possivel carregar os dados. Verifique a configuracao ou tente novamente.''"

definition msg_bad_range :: string where
  "msg_bad_range = ''A data de inicio deve ser anterior ou igual a data de fim.''"

text \<open>Lines 192-215: the table \<^verbatim>\<open>data\<close>, or the exception that ends the script.\<close>

definition load_data :: "'r env \<Rightarrow> config \<Rightarrow> 'r world \<Rightarrow> (py_exn + frame) \<times> 'r world" where
  "load_data E cfg w =
     (if data_source cfg = ''FRED API'' then
        if truthy (fred_api_key cfg) then
          (case fetch_all E SERIES_IDS cfg [] w of
             (Inl e, w1) \<Rightarrow> (Inl e, w1)
           | (Inr all_series, w1) \<Rightarrow>
               if all_series \<noteq> [] then (DataFrame_dict E all_series, w1)
               else (Inr DataFrame_empty, w1))
        else
          (let (data, w1) =
                 create_sample_data E (start_date cfg) (end_date cfg) (emit (St_warning msg_no_key) w)
           in (Inr data, w1))
      else
        (let (data, w1) = create_sample_data E (start_date cfg) (end_date cfg) w
         in (Inr data, w1)))"

text \<open>
  Lines 251-258 and 260-267: one statistics column. \<^verbatim>\<open>iloc[-1]\<close> on a column that has no
  value left after \<^verbatim>\<open>dropna()\<close> raises \<^verbatim>\<open>IndexError\<close>. The numbers shown are not modelled.
\<close>

definition dropna :: "real option list \<Rightarrow> real list" where
  "dropna vs = map the (filter (\<lambda>v. v \<noteq> None) vs)"

definition stats_column :: "string \<Rightarrow> frame \<Rightarrow> 'r world \<Rightarrow> py_exn option \<times> 'r world" where
  "stats_column name data w =
     (let w1 = emit (St_markdown (''**'' @ name @ ''**'')) w
      in case map_of (columns data) name of
           None \<Rightarrow> (None, w1)
         | Some vs \<Rightarrow>
             if dropna vs = [] then
               (Some (Exn ''IndexError'' ''single positional indexer is out-of-bounds''), w1)
             else
               (None, emit (St_metric ''Minimo'') (emit (St_metric ''Maximo'')
                        (emit (St_metric ''Media'') (emit (St_metric ''Atual'') w1)))))"

text \<open>Lines 271-282: one line per column when the table has at least 12 rows.\<close>

fun trend_lines :: "string list \<Rightarrow> 'r world \<Rightarrow> 'r world" where
  "trend_lines [] w = w"
| "trend_lines (col # cols) w = trend_lines cols (emit (St_write col) w)"

text \<open>
  Lines 217-285: the chart, the table of recent rows, the statistics and the trend for
  a table that is not empty, the warning otherwise. The result is the uncaught
  exception, if any, and the world.
\<close>

definition display :: "frame \<Rightarrow> 'r world \<Rightarrow> py_exn option \<times> 'r world" where
  "display data w =
     (if \<not> empty data then
        (let w1 = emit (St_subheader ''Grafico das Taxas de Cartao de Credito'') w;
             w2 = emit St_plotly_chart w1;
             w3 = emit (St_subheader ''Dados Recentes'') w2;
             w4 = emit St_dataframe w3;
             w5 = emit (St_subheader ''Estatisticas do Periodo'') w4
         in case stats_column name_delinquency data w5 of
              (Some e, w6) \<Rightarrow> (Some e, w6)
            | (None, w6) \<Rightarrow>
                (case stats_column name_chargeoff data w6 of
                   (Some e, w7) \<Rightarrow> (Some e, w7)
                 | (None, w7) \<Rightarrow>
                     (let w8 = emit (St_subheader ''Analise de Tendencia'') w7
                      in if length (index data) \<ge> 12
                         then (None, trend_lines (map fst (columns data)) w8)
                         else (None, w8))))
      else (None, emit (St_warning msg_no_data) w))"

text \<open>Lines 191-287.\<close>

definition fetch_and_display :: "'r env \<Rightarrow> config \<Rightarrow> 'r world \<Rightarrow> py_exn option \<times> 'r world" where
  "fetch_and_display E cfg w =
     (if start_date cfg \<le> end_date cfg then
        (case load_data E cfg w of
           (Inl e, w1) \<Rightarrow> (Some e, w1)
         | (Inr data, w1) \<Rightarrow> display data w1)
      else (None, emit (St_error msg_bad_range) w))"

section \<open>A mocked library\<close>

text \<open>
  A test double for the libraries, used to run the functions on concrete inputs: every
  request is answered with status 200 and two observations, the second with the token
  \<^verbatim>\<open>.\<close> that the upstream API sends for a missing value; the parsers know exactly the
  tokens of that answer; the generator state is a counter, and a draw is the location
  plus the scale times a number between -3 and 3 read off the counter.
\<close>

definition mock_body :: json where
  "mock_body =
     JObj [(''observations'',
            JArr [JObj [(''date'', JStr ''2020-01-01''), (''value'', JStr ''3.5'')],
                  JObj [(''date'', JStr ''2020-02-01''), (''value'', JStr ''.'')]])]"

definition mock_env :: "nat env" where
  "mock_env =
     \<lparr>requests_get = (\<lambda>url. Inr \<lparr>status_code = 200, json_body = Inr mock_body\<rparr>),
      to_datetime = (\<lambda>col. if col = [''2020-01-01'', ''2020-02-01'']
                           then Inr [(2020, 1, 1), (2020, 2, 1)]
                           else Inl (Exn ''ValueError'' ''unknown datetime string format'')),
      str_to_float = (\<lambda>tok. if tok = ''3.5'' then Some 3.5 else None),
      pandas_other = (\<lambda>obs. Inl (Exn ''ValueError'' ''DataFrame constructor not properly called'')),
      DataFrame_other = (\<lambda>d. Inl (Exn ''ValueError'' ''cannot reindex on an axis with duplicate labels'')),
      np_seed = (\<lambda>n. n),
      np_normal1 = (\<lambda>loc scale s. (loc + scale * (real (s mod 7) - 3), Suc s))\<rparr>"

definition mock_world :: "nat world" where
  "mock_world = \<lparr>trace = [], rng = 0\<rparr>"

text \<open>
  A second test double: a server that answers the request for \<^verbatim>\<open>DRCCLACBS\<close> with the
  observations \<open>obsA\<close> and any other request with \<open>obsB\<close>, given as pairs of date and
  value tokens; the parsers know the month ends of January to March 2020 and the tokens
  \<^verbatim>\<open>1.0\<close> to \<^verbatim>\<open>4.0\<close>.
\<close>

definition mock_observations :: "(string \<times> string) list \<Rightarrow> json" where
  "mock_observations obs =
     JObj [(''observations'',
            JArr (map (\<lambda>(d, v). JObj [(''date'', JStr d), (''value'', JStr v)]) obs))]"

definition mock_dates :: "(string \<times> date) list" where
  "mock_dates =
     [(''2020-01-31'', (2020, 1, 31)), (''2020-02-29'', (2020, 2, 29)),
      (''2020-03-31'', (2020, 3, 31))]"

definition mock_prefix :: string where
  "mock_prefix = ''https://api.stlouisfed.org/fred/series/observations?series_id=DRCCLACBS''"

definition mock_server :: "(string \<times> string) list \<Rightarrow> (string \<times> string) list \<Rightarrow> nat env" where
  "mock_server obsA obsB =
     mock_env
       \<lparr>requests_get := (\<lambda>url.
          Inr \<lparr>status_code = 200,
               json_body = Inr (if take (length mock_prefix) url = mock_prefix
                                then mock_observations obsA else mock_observations obsB)\<rparr>),
        to_datetime := (\<lambda>col.
          if list_all (\<lambda>tok. map_of mock_dates tok \<noteq> None) col
          then Inr (map (\<lambda>tok. the (map_of mock_dates tok)) col)
          else Inl (Exn ''ValueError'' ''unknown datetime string format'')),
        str_to_float := map_of [(''1.0'', 1), (''2.0'', 2), (''3.0'', 3), (''4.0'', 4)],
        DataFrame_other := (\<lambda>d. Inr DataFrame_empty)\<rparr>"

definition mock_config :: config where
  "mock_config =
     \<lparr>start_date = (2020, 1, 1), end_date = (2020, 3, 31), data_source = ''FRED API'',
      fred_api_key = Some ''key''\<rparr>"

section \<open>Properties of the Remote Fetcher\<close>

lemma fetch_try_Inl:
  "fetch_try E (fred_url sid s e k) = Inl ex \<Longrightarrow>
   fetch_fred_data_api E sid s e k w =
     (DataFrame_empty,
      emit (St_error (''Erro ao buscar dados via API: '' @ str_exn ex))
        (emit (Http_get (fred_url sid s e k)) w))"
  by (simp add: fetch_fred_data_api_def Let_def)

lemma fetch_try_Inr:
  "fetch_try E (fred_url sid s e k) = Inr df \<Longrightarrow>
   fetch_fred_data_api E sid s e k w = (df, emit (Http_get (fred_url sid s e k)) w)"
  by (simp add: fetch_fred_data_api_def Let_def)

text \<open>
  Claim C1. Whatever the series identifier, the date range and the API key: when
  \<^verbatim>\<open>requests.get\<close> raises, when the response has a status other than 200, or when any
  other step of the \<^verbatim>\<open>try\<close> block raises, \<^verbatim>\<open>fetch_fred_data_api\<close> returns the empty table
  \<^verbatim>\<open>pd.DataFrame()\<close>, which has no column and no row. The function returns a table in
  every case; an exception never leaves it.
\<close>

theorem fetch_soft_failure:
  assumes "(\<exists>ex. requests_get E (fred_url sid s e k) = Inl ex)
         \<or> (\<exists>r. requests_get E (fred_url sid s e k) = Inr r \<and> status_code r \<noteq> 200)
         \<or> (\<exists>ex. fetch_try E (fred_url sid s e k) = Inl ex)"
  shows "fst (fetch_fred_data_api E sid s e k w) = DataFrame_empty
       \<and> columns (fst (fetch_fred_data_api E sid s e k w)) = []
       \<and> index (fst (fetch_fred_data_api E sid s e k w)) = []"
proof -
  have "fetch_try E (fred_url sid s e k) = Inr DataFrame_empty
      \<or> (\<exists>ex. fetch_try E (fred_url sid s e k) = Inl ex)"
    using assms by (auto simp: fetch_try_def)
  then have "fst (fetch_fred_data_api E sid s e k w) = DataFrame_empty"
    by (auto simp: fetch_try_Inl fetch_try_Inr)
  then show ?thesis by (simp add: DataFrame_empty_def)
qed

text \<open>The mocked server answers 404, or the connection fails.\<close>

theorem fetch_soft_failure_witness:
  "fst (fetch_fred_data_api
          (mock_env\<lparr>requests_get := \<lambda>url. Inr \<lparr>status_code = 404, json_body = Inr mock_body\<rparr>\<rparr>)
          ''DRCCLACBS'' ''2020-01-01'' ''2020-03-01'' None mock_world) = DataFrame_empty
 \<and> fst (fetch_fred_data_api
          (mock_env\<lparr>requests_get := \<lambda>url. Inl (Exn ''ConnectionError'' ''unreachable'')\<rparr>)
          ''DRCCLACBS'' ''2020-01-01'' ''2020-03-01'' None mock_world) = DataFrame_empty"
  using fetch_soft_failure [of "mock_env\<lparr>requests_get := \<lambda>url. Inr \<lparr>status_code = 404, json_body = Inr mock_body\<rparr>\<rparr>"
          "''DRCCLACBS''" "''2020-01-01''" "''2020-03-01''" None mock_world]
        fetch_soft_failure [of "mock_env\<lparr>requests_get := \<lambda>url. Inl (Exn ''ConnectionError'' ''unreachable'')\<rparr>"
          "''DRCCLACBS''" "''2020-01-01''" "''2020-03-01''" None mock_world]
  by simp

text \<open>
  Claim C2. For a response with status 200 whose JSON body is a dict with a list of
  \<^verbatim>\<open>{date, value}\<close> records under \<^verbatim>\<open>observations\<close>, and whose date tokens pandas parses
  into the dates \<open>ds\<close>: the result is indexed by \<open>ds\<close> and has the single column
  \<^verbatim>\<open>value\<close> with one cell per record, in order; the cell of a record is the float read
  from its value token, and NaN (a missing value) when the token is not numeric. No
  record is dropped and no cell is set to zero. (A list with no record at all gives a
  frame without a \<^verbatim>\<open>date\<close> column, hence \<^verbatim>\<open>KeyError\<close> and the empty table.)
\<close>

theorem fetch_parses_observations:
  assumes "requests_get E (fred_url sid s e k) = Inr r"
      and "status_code r = 200"
      and "json_body r = Inr (JObj kvs)"
      and "map_of kvs ''observations'' = Some (JArr xs)"
      and "obs_records (JArr xs) = Some recs"
      and "to_datetime E (map fst recs) = Inr ds"
  shows "(recs \<noteq> [] \<longrightarrow>
            fst (fetch_fred_data_api E sid s e k w) =
              \<lparr>index = ds, columns = [(''value'', map (\<lambda>rec. str_to_float E (snd rec)) recs)]\<rparr>
          \<and> length (map (\<lambda>rec. str_to_float E (snd rec)) recs) = length xs
          \<and> (\<forall>i < length xs. str_to_float E (snd (recs ! i)) = None \<longrightarrow>
                map (\<lambda>rec. str_to_float E (snd rec)) recs ! i = None))
       \<and> (recs = [] \<longrightarrow> fst (fetch_fred_data_api E sid s e k w) = DataFrame_empty)"
proof -
  have key: "''observations'' \<in> set (map fst kvs)"
    using assms(4) by (metis map_of_eq_None_iff option.distinct(1) set_map)
  have len: "length recs = length xs"
    using assms(5) by (auto split: if_splits)
  have "fetch_try E (fred_url sid s e k) = observations_frame E (JArr xs)"
    using assms(1-4) key by (simp add: fetch_try_def)
  moreover have "recs \<noteq> [] \<Longrightarrow> observations_frame E (JArr xs) =
      Inr \<lparr>index = ds, columns = [(''value'', map (\<lambda>rec. str_to_float E (snd rec)) recs)]\<rparr>"
    using assms(5,6) by (simp add: observations_frame_def to_numeric_coerce_def comp_def)
  moreover have "recs = [] \<Longrightarrow> observations_frame E (JArr xs) = Inl (Exn ''KeyError'' ''date'')"
    using assms(5) by (simp add: observations_frame_def)
  ultimately show ?thesis
    using len by (auto simp: fetch_try_Inl fetch_try_Inr)
qed

text \<open>
  The mocked response of two observations, \<^verbatim>\<open>3.5\<close> and \<^verbatim>\<open>.\<close>: two dated rows, the first
  3.5 and the second missing.
\<close>

theorem fetch_parses_observations_witness:
  "fst (fetch_fred_data_api mock_env ''DRCCLACBS'' ''2020-01-01'' ''2020-03-01'' None mock_world) =
     \<lparr>index = [(2020, 1, 1), (2020, 2, 1)], columns = [(''value'', [Some 3.5, None])]\<rparr>"
  using fetch_parses_observations [of mock_env "''DRCCLACBS''" "''2020-01-01''" "''2020-03-01''" None
          "\<lparr>status_code = 200, json_body = Inr mock_body\<rparr>"
          "[(''observations'',
             JArr [JObj [(''date'', JStr ''2020-01-01''), (''value'', JStr ''3.5'')],
                   JObj [(''date'', JStr ''2020-02-01''), (''value'', JStr ''.'')]])]"
          "[JObj [(''date'', JStr ''2020-01-01''), (''value'', JStr ''3.5'')],
            JObj [(''date'', JStr ''2020-02-01''), (''value'', JStr ''.'')]]"
          "[(''2020-01-01'', ''3.5''), (''2020-02-01'', ''.'')]"
          "[(2020, 1, 1), (2020, 2, 1)]" mock_world]
  by (simp add: mock_env_def mock_body_def)

text \<open>
  Claim C10. For a response with status 200 whose JSON body has no \<^verbatim>\<open>observations\<close> key
  (a dict without that key, or a JSON value that is not a dict at all),
  \<^verbatim>\<open>fetch_fred_data_api\<close> returns the empty table \<^verbatim>\<open>pd.DataFrame()\<close>, as it does for a
  status other than 200, and raises nothing.
\<close>

theorem fetch_no_observations_key:
  assumes "requests_get E (fred_url sid s e k) = Inr r"
      and "status_code r = 200"
      and "json_body r = Inr data"
      and "\<forall>kvs. data = JObj kvs \<longrightarrow> ''observations'' \<notin> set (map fst kvs)"
  shows "fst (fetch_fred_data_api E sid s e k w) = DataFrame_empty"
proof -
  have "fetch_try E (fred_url sid s e k) = Inr DataFrame_empty
      \<or> (\<exists>ex. fetch_try E (fred_url sid s e k) = Inl ex)"
    using assms by (cases data) (auto simp: fetch_try_def split: sum.splits bool.splits)
  then show ?thesis
    by (auto simp: fetch_try_Inl fetch_try_Inr)
qed

text \<open>The mocked server answers 200 with an error document, or with a bare list.\<close>

theorem fetch_no_observations_key_witness:
  "fst (fetch_fred_data_api
          (mock_env\<lparr>requests_get := \<lambda>url.
             Inr \<lparr>status_code = 200,
                  json_body = Inr (JObj [(''error_message'', JStr ''Bad Request'')])\<rparr>\<rparr>)
          ''DRCCLACBS'' ''2020-01-01'' ''2020-03-01'' None mock_world) = DataFrame_empty
 \<and> fst (fetch_fred_data_api
          (mock_env\<lparr>requests_get := \<lambda>url.
             Inr \<lparr>status_code = 200, json_body = Inr (JArr [JStr ''observations''])\<rparr>\<rparr>)
          ''DRCCLACBS'' ''2020-01-01'' ''2020-03-01'' None mock_world) = DataFrame_empty"
  using fetch_no_observations_key [of
          "mock_env\<lparr>requests_get := \<lambda>url.
             Inr \<lparr>status_code = 200,
                  json_body = Inr (JObj [(''error_message'', JStr ''Bad Request'')])\<rparr>\<rparr>"
          "''DRCCLACBS''" "''2020-01-01''" "''2020-03-01''" None
          "\<lparr>status_code = 200, json_body = Inr (JObj [(''error_message'', JStr ''Bad Request'')])\<rparr>"
          "JObj [(''error_message'', JStr ''Bad Request'')]" mock_world]
        fetch_no_observations_key [of
          "mock_env\<lparr>requests_get := \<lambda>url.
             Inr \<lparr>status_code = 200, json_body = Inr (JArr [JStr ''observations''])\<rparr>\<rparr>"
          "''DRCCLACBS''" "''2020-01-01''" "''2020-03-01''" None
          "\<lparr>status_code = 200, json_body = Inr (JArr [JStr ''observations''])\<rparr>"
          "JArr [JStr ''observations'']" mock_world]
  by simp

section \<open>Properties of the Synthetic Generator\<close>

lemma np_normal_length: "length (fst (np_normal E loc scale n s)) = n"
  by (induction n arbitrary: s) (auto simp: split_beta Let_def)

lemma base_plus_noise_length:
  "base_plus_noise E n s = ((d, c), s') \<Longrightarrow> length d = n \<and> length c = n"
  by (auto simp: base_plus_noise_def split_beta Let_def np_normal_length)

lemma crisis_peaks_nth:
  assumes "crisis_peaks (enumerate n ds) (d, c) = (d', c')"
      and "n + length ds \<le> length d" and "n + length ds \<le> length c"
  shows "d' ! i =
           (if n \<le> i \<and> i < n + length ds then
              d ! i + (if 2008 \<le> year (ds ! (i - n)) \<and> year (ds ! (i - n)) \<le> 2010 then 2.5
                       else if year (ds ! (i - n)) = 2020 then 1.5 else 0)
            else d ! i)
       \<and> c' ! i =
           (if n \<le> i \<and> i < n + length ds then
              c ! i + (if 2008 \<le> year (ds ! (i - n)) \<and> year (ds ! (i - n)) \<le> 2010 then 3.0
                       else if year (ds ! (i - n)) = 2020 then 2.0 else 0)
            else c ! i)"
  using assms
proof (induction ds arbitrary: n d c)
  case Nil
  then show ?case by simp
next
  case (Cons x xs)
  let ?d1 = "if 2008 \<le> year x \<and> year x \<le> 2010 then d[n := d ! n + 2.5]
             else if year x = 2020 then d[n := d ! n + 1.5] else d"
  let ?c1 = "if 2008 \<le> year x \<and> year x \<le> 2010 then c[n := c ! n + 3.0]
             else if year x = 2020 then c[n := c ! n + 2.0] else c"
  have step: "crisis_peaks (enumerate (Suc n) xs) (?d1, ?c1) = (d', c')"
    using Cons.prems(1) by (auto split: if_splits)
  have len: "Suc n + length xs \<le> length ?d1" "Suc n + length xs \<le> length ?c1"
    using Cons.prems(2,3) by auto
  note IH = Cons.IH [OF step len]
  show ?case
  proof (cases "i = n")
    case True
    then show ?thesis using IH Cons.prems(2,3) by auto
  next
    case False
    then show ?thesis using IH Cons.prems(2,3)
      by (cases "n < i") (auto simp: nth_Cons')
  qed
qed

lemma np_normal_numeral:
  "np_normal E loc scale (numeral k) s =
     (let (x, s1) = np_normal1 E loc scale s;
          (xs, s2) = np_normal E loc scale (pred_numeral k) s1
      in (x # xs, s2))"
  by (simp add: numeral_eq_Suc)

text \<open>The mocked generator on the range from 2019-11-15 to 2020-03-30, step by step.\<close>

lemma date_range_mock:
  "date_range (2019, 11, 15) (2020, 3, 30) =
     [(2019, 11, 30), (2019, 12, 31), (2020, 1, 31), (2020, 2, 29)]"
  by (simp add: date_range_def month_number_def year_def month_def month_end_def
        days_in_month_def is_leap_def upt_rec)

lemma base_plus_noise_mock:
  "base_plus_noise mock_env 4 42 = (([-1, 0.5, 2, 3.5], [6, 7.8, 9.6, -1.2]), 50)"
  by (simp add: base_plus_noise_def mock_env_def np_normal_numeral base_delinquency_def
        base_chargeoff_def)

lemma create_sample_data_mock:
  "create_sample_data mock_env (2019, 11, 15) (2020, 3, 30) mock_world =
     (\<lparr>index = [(2019, 11, 30), (2019, 12, 31), (2020, 1, 31), (2020, 2, 29)],
       columns = [(name_delinquency, [Some 0.5, Some 0.5, Some 3.5, Some 5]),
                  (name_chargeoff, [Some 6, Some 7.8, Some 11.6, Some 0.8])]\<rparr>,
      \<lparr>trace = [Np_random_seed 42], rng = 50\<rparr>)"
proof -
  have seed: "np_seed mock_env 42 = 42"
    by (simp add: mock_env_def)
  have four: "Suc (Suc (Suc (Suc 0))) = 4"
    by simp
  show ?thesis
    by (simp add: create_sample_data_def date_range_mock seed four base_plus_noise_mock year_def
          np_maximum_def emit_def mock_world_def)
qed

text \<open>
  Claim C6. Two calls of \<^verbatim>\<open>create_sample_data\<close> with the same start and end dates return
  the same table, whatever the state of numpy's global generator (and the page) before
  each call: the call reseeds the generator with 42, so neither the dates nor the values
  of the two columns depend on what happened before. The generator is also left in the
  same state by both calls.
\<close>

theorem create_sample_data_deterministic:
  "fst (create_sample_data E sd ed w1) = fst (create_sample_data E sd ed w2)
 \<and> rng (snd (create_sample_data E sd ed w1)) = rng (snd (create_sample_data E sd ed w2))
 \<and> trace (snd (create_sample_data E sd ed w1)) = trace w1 @ [Np_random_seed 42]"
  by (simp add: create_sample_data_def Let_def split_beta emit_def)

text \<open>A second call right after the first one, on the mocked generator.\<close>

theorem create_sample_data_deterministic_witness:
  "fst (create_sample_data mock_env (2019, 11, 15) (2020, 3, 30) mock_world) =
   fst (create_sample_data mock_env (2019, 11, 15) (2020, 3, 30)
          (snd (create_sample_data mock_env (2019, 11, 15) (2020, 3, 30) mock_world)))"
  using create_sample_data_deterministic [of mock_env "(2019, 11, 15)" "(2020, 3, 30)" mock_world
          "snd (create_sample_data mock_env (2019, 11, 15) (2020, 3, 30) mock_world)"]
  by (rule conjunct1)

text \<open>
  Claim C7. For every date range, the table returned by \<^verbatim>\<open>create_sample_data\<close> has the two
  columns of the delinquency and the charge-off rate, and every cell of both is a value
  (not NaN) that is at least 0.5: \<^verbatim>\<open>np.maximum(..., 0.5)\<close> is applied last, after the noise
  and the crisis peaks.
\<close>

theorem create_sample_data_floor:
  "map fst (columns (fst (create_sample_data E sd ed w))) = [name_delinquency, name_chargeoff]
 \<and> (\<forall>(name, vs) \<in> set (columns (fst (create_sample_data E sd ed w))).
       \<forall>v \<in> set vs. \<exists>x. v = Some x \<and> 0.5 \<le> x)"
  by (auto simp: create_sample_data_def Let_def split_beta np_maximum_def)

text \<open>On the mocked generator the noise pushes two cells below 0.5; they come out as 0.5.\<close>

theorem create_sample_data_floor_witness:
  "columns (fst (create_sample_data mock_env (2019, 11, 15) (2020, 3, 30) mock_world)) =
     [(name_delinquency, [Some 0.5, Some 0.5, Some 3.5, Some 5]),
      (name_chargeoff, [Some 6, Some 7.8, Some 11.6, Some 0.8])]
 \<and> list_all (\<lambda>(name, vs). list_all (\<lambda>v. \<exists>x. v = Some x \<and> 0.5 \<le> x) vs)
     (columns (fst (create_sample_data mock_env (2019, 11, 15) (2020, 3, 30) mock_world)))"
proof -
  have "columns (fst (create_sample_data mock_env (2019, 11, 15) (2020, 3, 30) mock_world)) =
     [(name_delinquency, [Some 0.5, Some 0.5, Some 3.5, Some 5]),
      (name_chargeoff, [Some 6, Some 7.8, Some 11.6, Some 0.8])]"
    by (simp add: create_sample_data_mock)
  moreover have "list_all (\<lambda>(name, vs). list_all (\<lambda>v. \<exists>x. v = Some x \<and> 0.5 \<le> x) vs)
     (columns (fst (create_sample_data mock_env (2019, 11, 15) (2020, 3, 30) mock_world)))"
    using create_sample_data_floor [of mock_env "(2019, 11, 15)" "(2020, 3, 30)" mock_world,
            THEN conjunct2]
    unfolding list_all_iff by (simp add: split_beta)
  ultimately show ?thesis by (rule conjI)
qed

text \<open>
  Claim C8. Let \<open>d0\<close> and \<open>c0\<close> be the arrays of base value plus noise (lines 92-93) and
  \<open>d1\<close> and \<open>c1\<close> the arrays after the loop of lines 96-102. For every row: when the year
  of its date is between 2008 and 2010, the loop has added 2.5 to the delinquency value
  and 3.0 to the charge-off value; when the year is 2020, it has added 1.5 and 2.0; in
  any other year it has added nothing. The table returned holds these adjusted values,
  floored at 0.5.
\<close>

theorem crisis_peaks_offsets:
  assumes "base_plus_noise E (length (date_range sd ed)) (np_seed E 42) = ((d0, c0), s)"
      and "crisis_peaks (enumerate 0 (date_range sd ed)) (d0, c0) = (d1, c1)"
      and "i < length (date_range sd ed)"
  shows "d1 ! i = d0 ! i +
           (if 2008 \<le> year (date_range sd ed ! i) \<and> year (date_range sd ed ! i) \<le> 2010 then 2.5
            else if year (date_range sd ed ! i) = 2020 then 1.5 else 0)
       \<and> c1 ! i = c0 ! i +
           (if 2008 \<le> year (date_range sd ed ! i) \<and> year (date_range sd ed ! i) \<le> 2010 then 3.0
            else if year (date_range sd ed ! i) = 2020 then 2.0 else 0)
       \<and> fst (create_sample_data E sd ed w) =
           \<lparr>index = date_range sd ed,
            columns = [(name_delinquency, map Some (np_maximum d1 0.5)),
                       (name_chargeoff, map Some (np_maximum c1 0.5))]\<rparr>"
proof -
  have len: "0 + length (date_range sd ed) \<le> length d0" "0 + length (date_range sd ed) \<le> length c0"
    using base_plus_noise_length [OF assms(1)] by simp_all
  have "fst (create_sample_data E sd ed w) =
           \<lparr>index = date_range sd ed,
            columns = [(name_delinquency, map Some (np_maximum d1 0.5)),
                       (name_chargeoff, map Some (np_maximum c1 0.5))]\<rparr>"
    using assms(1,2) by (simp add: create_sample_data_def Let_def emit_def)
  then show ?thesis
    using crisis_peaks_nth [OF assms(2) len, of i] assms(3) by simp
qed

text \<open>
  The third row of the mocked run is dated 2020-01-31: 1.5 and 2.0 are added. The first
  row is dated 2019-11-30: nothing is added.
\<close>

theorem crisis_peaks_offsets_witness:
  "date_range (2019, 11, 15) (2020, 3, 30) ! 2 = (2020, 1, 31)
 \<and> fst (crisis_peaks (enumerate 0 (date_range (2019, 11, 15) (2020, 3, 30)))
          (fst (base_plus_noise mock_env (length (date_range (2019, 11, 15) (2020, 3, 30)))
                  (np_seed mock_env 42)))) ! 2 =
   fst (fst (base_plus_noise mock_env (length (date_range (2019, 11, 15) (2020, 3, 30)))
               (np_seed mock_env 42))) ! 2 + 1.5
 \<and> snd (crisis_peaks (enumerate 0 (date_range (2019, 11, 15) (2020, 3, 30)))
          (fst (base_plus_noise mock_env (length (date_range (2019, 11, 15) (2020, 3, 30)))
                  (np_seed mock_env 42)))) ! 2 =
   snd (fst (base_plus_noise mock_env (length (date_range (2019, 11, 15) (2020, 3, 30)))
               (np_seed mock_env 42))) ! 2 + 2.0
 \<and> fst (crisis_peaks (enumerate 0 (date_range (2019, 11, 15) (2020, 3, 30)))
          (fst (base_plus_noise mock_env (length (date_range (2019, 11, 15) (2020, 3, 30)))
                  (np_seed mock_env 42)))) ! 0 =
   fst (fst (base_plus_noise mock_env (length (date_range (2019, 11, 15) (2020, 3, 30)))
               (np_seed mock_env 42))) ! 0"
proof -
  let ?ds = "date_range (2019, 11, 15) (2020, 3, 30)"
  let ?X = "base_plus_noise mock_env (length ?ds) (np_seed mock_env 42)"
  let ?Y = "crisis_peaks (enumerate 0 ?ds) (fst ?X)"
  have h1: "?X = ((fst (fst ?X), snd (fst ?X)), snd ?X)"
    by simp
  have h2: "crisis_peaks (enumerate 0 ?ds) (fst (fst ?X), snd (fst ?X)) = (fst ?Y, snd ?Y)"
    by simp
  have h3: "2 < length ?ds" and h4: "0 < length ?ds"
    by (simp_all add: date_range_mock)
  have y2: "?ds ! 2 = (2020, 1, 31)" and y0: "year (?ds ! 0) = 2019" and y2': "year (?ds ! 2) = 2020"
    by (simp_all add: date_range_mock year_def)
  have a: "fst ?Y ! 2 = fst (fst ?X) ! 2 + 1.5 \<and> snd ?Y ! 2 = snd (fst ?X) ! 2 + 2.0"
    using crisis_peaks_offsets [OF h1 h2 h3, of mock_world] by (simp add: y2')
  have b: "fst ?Y ! 0 = fst (fst ?X) ! 0"
    using crisis_peaks_offsets [OF h1 h2 h4, of mock_world] by (simp add: y0)
  show ?thesis
    using y2 a b by blast
qed

section \<open>Properties of the Orchestrator\<close>

lemma emit_trace: "trace (emit ev w) = trace w @ [ev]"
  by (simp add: emit_def)

lemma emit_rng: "rng (emit ev w) = rng w"
  by (simp add: emit_def)

text \<open>
  Claim C9. When the start date is strictly after the end date, the block of lines
  191-287 only shows the error message about the range: nothing else is written to the
  page, no HTTP request is sent, numpy's generator is neither reseeded nor advanced (so
  neither \<^verbatim>\<open>fetch_fred_data_api\<close> nor \<^verbatim>\<open>create_sample_data\<close> has run), and no exception
  is raised.
\<close>

theorem invalid_range_no_fetch:
  assumes "end_date cfg < start_date cfg"
  shows "fetch_and_display E cfg w = (None, emit (St_error msg_bad_range) w)
       \<and> trace (snd (fetch_and_display E cfg w)) = trace w @ [St_error msg_bad_range]
       \<and> rng (snd (fetch_and_display E cfg w)) = rng w"
proof -
  have "\<not> start_date cfg \<le> end_date cfg"
    using assms by (simp add: not_le)
  then show ?thesis
    by (simp add: fetch_and_display_def emit_trace emit_rng)
qed

text \<open>Start date 2020-03-01, end date 2020-01-01, in remote mode with a key.\<close>

theorem invalid_range_no_fetch_witness:
  "fetch_and_display mock_env
     \<lparr>start_date = (2020, 3, 1), end_date = (2020, 1, 1), data_source = ''FRED API'',
      fred_api_key = Some ''key''\<rparr> mock_world =
   (None, \<lparr>trace = [St_error msg_bad_range], rng = 0\<rparr>)"
  using invalid_range_no_fetch [of
          "\<lparr>start_date = (2020, 3, 1), end_date = (2020, 1, 1), data_source = ''FRED API'',
            fred_api_key = Some ''key''\<rparr>" mock_env mock_world]
  by (simp add: emit_def mock_world_def)

lemma stats_column_trace:
  "\<exists>evs. trace (snd (stats_column name data w)) = trace w @ evs
        \<and> (\<forall>ev \<in> set evs. \<forall>m. ev \<noteq> St_warning m)"
  by (auto simp: stats_column_def Let_def emit_trace split: option.splits)

lemma trend_lines_trace: "trace (trend_lines cols w) = trace w @ map St_write cols"
  by (induction cols arbitrary: w) (auto simp: emit_trace)

lemma display_empty: "empty data \<Longrightarrow> display data w = (None, emit (St_warning msg_no_data) w)"
  by (simp add: display_def)

lemma display_not_empty:
  assumes "\<not> empty data"
  shows "\<exists>rest. trace (snd (display data w)) =
           trace w @ [St_subheader ''Grafico das Taxas de Cartao de Credito'', St_plotly_chart,
                      St_subheader ''Dados Recentes'', St_dataframe,
                      St_subheader ''Estatisticas do Periodo''] @ rest
         \<and> (\<forall>ev \<in> set rest. \<forall>m. ev \<noteq> St_warning m)"
proof -
  let ?w5 = "emit (St_subheader ''Estatisticas do Periodo'') (emit St_dataframe
              (emit (St_subheader ''Dados Recentes'') (emit St_plotly_chart
                (emit (St_subheader ''Grafico das Taxas de Cartao de Credito'') w))))"
  have t5: "trace ?w5 =
           trace w @ [St_subheader ''Grafico das Taxas de Cartao de Credito'', St_plotly_chart,
                      St_subheader ''Dados Recentes'', St_dataframe,
                      St_subheader ''Estatisticas do Periodo'']"
    by (simp add: emit_trace)
  obtain x6 w6 where s6: "stats_column name_delinquency data ?w5 = (x6, w6)"
    by (cases "stats_column name_delinquency data ?w5")
  obtain e6 where t6: "trace w6 = trace ?w5 @ e6" "\<forall>ev \<in> set e6. \<forall>m. ev \<noteq> St_warning m"
    using stats_column_trace [of name_delinquency data ?w5] s6 by auto
  obtain x7 w7 where s7: "stats_column name_chargeoff data w6 = (x7, w7)"
    by (cases "stats_column name_chargeoff data w6")
  obtain e7 where t7: "trace w7 = trace w6 @ e7" "\<forall>ev \<in> set e7. \<forall>m. ev \<noteq> St_warning m"
    using stats_column_trace [of name_chargeoff data w6] s7 by auto
  show ?thesis
  proof (cases x6)
    case (Some ex)
    then have "snd (display data w) = w6"
      using assms s6 by (simp add: display_def Let_def)
    then show ?thesis using t5 t6 by auto
  next
    case None
    show ?thesis
    proof (cases x7)
      case (Some ex)
      then have "snd (display data w) = w7"
        using assms s6 s7 None by (simp add: display_def Let_def)
      then show ?thesis using t5 t6 t7 by auto
    next
      case n7: None
      have "trace (snd (display data w)) =
              trace w7 @ [St_subheader ''Analise de Tendencia'']
              @ (if length (index data) \<ge> 12 then map St_write (map fst (columns data)) else [])"
        using assms s6 s7 None n7
        by (simp add: display_def Let_def trend_lines_trace emit_trace)
      then show ?thesis using t5 t6 t7 by auto
    qed
  qed
qed

text \<open>
  Claim C5. When the dates are in order and the table \<^verbatim>\<open>data\<close> that lines 192-215 build is
  empty, the only thing shown after loading is the warning that the data could not be
  loaded: no chart, no table of recent rows, no statistics. When the table is not
  empty, the chart, the table of recent rows and the statistics heading are shown, in
  that order, and that warning is not.
\<close>

theorem empty_table_warning:
  assumes "start_date cfg \<le> end_date cfg"
      and "load_data E cfg w = (Inr data, w1)"
  shows "(empty data \<longrightarrow>
            fetch_and_display E cfg w = (None, emit (St_warning msg_no_data) w1)
          \<and> trace (snd (fetch_and_display E cfg w)) = trace w1 @ [St_warning msg_no_data])
       \<and> (\<not> empty data \<longrightarrow>
            (\<exists>rest. trace (snd (fetch_and_display E cfg w)) =
               trace w1 @ [St_subheader ''Grafico das Taxas de Cartao de Credito'', St_plotly_chart,
                           St_subheader ''Dados Recentes'', St_dataframe,
                           St_subheader ''Estatisticas do Periodo''] @ rest
             \<and> (\<forall>ev \<in> set rest. \<forall>m. ev \<noteq> St_warning m)))"
proof -
  have "fetch_and_display E cfg w = display data w1"
    using assms by (simp add: fetch_and_display_def)
  then show ?thesis
    using display_empty [of data w1] display_not_empty [of data w1]
    by (auto simp: emit_trace)
qed

text \<open>
  Demo mode on the mocked library. From 2020-01-01 to 2020-01-15 there is no month end:
  the table has two columns and no row, and only the warning appears. From 2019-11-15
  to 2020-03-30 the table has four rows and the chart appears.
\<close>

lemma load_data_mock_no_rows:
  "load_data mock_env
     \<lparr>start_date = (2020, 1, 1), end_date = (2020, 1, 15),
      data_source = ''Dados Simulados (Demo)'', fred_api_key = None\<rparr> mock_world =
   (Inr \<lparr>index = [], columns = [(name_delinquency, []), (name_chargeoff, [])]\<rparr>,
    \<lparr>trace = [Np_random_seed 42], rng = 42\<rparr>)"
proof -
  have "date_range (2020, 1, 1) (2020, 1, 15) = []"
    by (simp add: date_range_def month_number_def year_def month_def month_end_def
          days_in_month_def is_leap_def upt_rec)
  then show ?thesis
    by (simp add: load_data_def create_sample_data_def base_plus_noise_def np_maximum_def
          emit_def mock_world_def mock_env_def)
qed

lemma load_data_mock_rows:
  "load_data mock_env
     \<lparr>start_date = (2019, 11, 15), end_date = (2020, 3, 30),
      data_source = ''Dados Simulados (Demo)'', fred_api_key = None\<rparr> mock_world =
   (Inr \<lparr>index = [(2019, 11, 30), (2019, 12, 31), (2020, 1, 31), (2020, 2, 29)],
         columns = [(name_delinquency, [Some 0.5, Some 0.5, Some 3.5, Some 5]),
                    (name_chargeoff, [Some 6, Some 7.8, Some 11.6, Some 0.8])]\<rparr>,
    \<lparr>trace = [Np_random_seed 42], rng = 50\<rparr>)"
  by (simp add: load_data_def create_sample_data_mock)

theorem empty_table_warning_witness:
  "fetch_and_display mock_env
     \<lparr>start_date = (2020, 1, 1), end_date = (2020, 1, 15),
      data_source = ''Dados Simulados (Demo)'', fred_api_key = None\<rparr> mock_world =
   (None, \<lparr>trace = [Np_random_seed 42, St_warning msg_no_data], rng = 42\<rparr>)
 \<and> (\<exists>rest. trace (snd (fetch_and_display mock_env
                \<lparr>start_date = (2019, 11, 15), end_date = (2020, 3, 30),
                 data_source = ''Dados Simulados (Demo)'', fred_api_key = None\<rparr> mock_world)) =
       [Np_random_seed 42, St_subheader ''Grafico das Taxas de Cartao de Credito'',
        St_plotly_chart, St_subheader ''Dados Recentes'', St_dataframe,
        St_subheader ''Estatisticas do Periodo''] @ rest)"
proof -
  have le1: "start_date \<lparr>start_date = (2020, 1, 1), end_date = (2020, 1, 15),
      data_source = ''Dados Simulados (Demo)'', fred_api_key = None\<rparr>
      \<le> end_date \<lparr>start_date = (2020, 1, 1), end_date = (2020, 1, 15),
      data_source = ''Dados Simulados (Demo)'', fred_api_key = None\<rparr>"
    by simp
  have le2: "start_date \<lparr>start_date = (2019, 11, 15), end_date = (2020, 3, 30),
      data_source = ''Dados Simulados (Demo)'', fred_api_key = None\<rparr>
      \<le> end_date \<lparr>start_date = (2019, 11, 15), end_date = (2020, 3, 30),
      data_source = ''Dados Simulados (Demo)'', fred_api_key = None\<rparr>"
    by simp
  have a: "fetch_and_display mock_env
     \<lparr>start_date = (2020, 1, 1), end_date = (2020, 1, 15),
      data_source = ''Dados Simulados (Demo)'', fred_api_key = None\<rparr> mock_world =
     (None, \<lparr>trace = [Np_random_seed 42, St_warning msg_no_data], rng = 42\<rparr>)"
    using empty_table_warning [OF le1 load_data_mock_no_rows]
    by (simp add: empty_def emit_def)
  have b: "\<exists>rest. trace (snd (fetch_and_display mock_env
                \<lparr>start_date = (2019, 11, 15), end_date = (2020, 3, 30),
                 data_source = ''Dados Simulados (Demo)'', fred_api_key = None\<rparr> mock_world)) =
       [Np_random_seed 42, St_subheader ''Grafico das Taxas de Cartao de Credito'',
        St_plotly_chart, St_subheader ''Dados Recentes'', St_dataframe,
        St_subheader ''Estatisticas do Periodo''] @ rest"
    using empty_table_warning [OF le2 load_data_mock_rows]
    by (auto simp: empty_def)
  show ?thesis
    using a b by (rule conjI)
qed

lemma observations_frame_shape:
  "observations_frame E obs = Inr df \<Longrightarrow> \<exists>vs. columns df = [(''value'', vs)]"
  by (auto simp: observations_frame_def split: option.splits sum.splits if_splits)

lemma fetch_try_shape:
  "fetch_try E url = Inr df \<Longrightarrow> df = DataFrame_empty \<or> (\<exists>vs. columns df = [(''value'', vs)])"
  by (auto simp: fetch_try_def split: sum.splits if_splits bool.splits
           dest: observations_frame_shape)

lemma fetch_columns_shape:
  "columns (fst (fetch_fred_data_api E sid s e k w)) = []
 \<or> (\<exists>vs. columns (fst (fetch_fred_data_api E sid s e k w)) = [(''value'', vs)])"
proof (cases "fetch_try E (fred_url sid s e k)")
  case (Inl ex)
  then show ?thesis by (simp add: fetch_try_Inl DataFrame_empty_def)
next
  case (Inr df)
  then show ?thesis
    using fetch_try_shape [OF Inr] by (auto simp: fetch_try_Inr DataFrame_empty_def)
qed


lemma fetch_getitem:
  "\<not> empty (fst (fetch_fred_data_api E sid s e k w)) \<Longrightarrow>
   frame_getitem (fst (fetch_fred_data_api E sid s e k w)) ''value'' =
     Inr (index (fst (fetch_fred_data_api E sid s e k w)),
          snd (hd (columns (fst (fetch_fred_data_api E sid s e k w)))))"
  using fetch_columns_shape [of E sid s e k w]
  by (auto simp: frame_getitem_def empty_def)

lemma names_differ: "name_delinquency \<noteq> name_chargeoff"
  by (simp add: name_delinquency_def name_chargeoff_def)

lemma fetch_all_SERIES_IDS:
  assumes "r1 = fetch_fred_data_api E ''DRCCLACBS'' (strftime_ymd (start_date cfg))
                  (strftime_ymd (end_date cfg)) (fred_api_key cfg) w"
      and "r2 = fetch_fred_data_api E ''CORCCACBS'' (strftime_ymd (start_date cfg))
                  (strftime_ymd (end_date cfg)) (fred_api_key cfg) (snd r1)"
  shows "fetch_all E SERIES_IDS cfg [] w =
           (Inr ((if empty (fst r1) then []
                  else [(name_delinquency, (index (fst r1), snd (hd (columns (fst r1)))))])
               @ (if empty (fst r2) then []
                  else [(name_chargeoff, (index (fst r2), snd (hd (columns (fst r2)))))])),
            snd r2)"
  using names_differ
  by (simp add: SERIES_IDS_def assms split_beta Let_def fetch_getitem)

lemma reindex_length: "length (reindex col ix) = length ix"
  by (simp add: reindex_def)

lemma reindex_missing: "d \<notin> set (fst col) \<Longrightarrow> i < length ix \<Longrightarrow> ix ! i = d \<Longrightarrow> reindex col ix ! i = None"
proof -
  assume d: "d \<notin> set (fst col)" and i: "i < length ix" and e: "ix ! i = d"
  have "d \<notin> fst ` set (zip (fst col) (snd col))"
    using d by (auto dest: set_zip_leftD)
  then have "map_of (zip (fst col) (snd col)) d = None"
    by (simp add: map_of_eq_None_iff)
  then show ?thesis
    using i e by (simp add: reindex_def)
qed

lemma reindex_present:
  assumes "distinct ixA" and "length vsA = length ixA" and "j < length ixA"
      and "i < length ix" and "ix ! i = ixA ! j"
  shows "reindex (ixA, vsA) ix ! i = vsA ! j"
proof -
  have "map_of (zip ixA vsA) (ixA ! j) = Some (vsA ! j)"
    using assms(1-3) by (simp add: map_of_zip_nth)
  then show ?thesis
    using assms(4,5) by (simp add: reindex_def)
qed

text \<open>The table built from two series with the same index: the series side by side.\<close>

lemma DataFrame_dict_same_index:
  "DataFrame_dict E [(nA, (ix, vsA)), (nB, (ix, vsB))] =
     Inr \<lparr>index = ix, columns = [(nA, vsA), (nB, vsB)]\<rparr>"
  by (simp add: DataFrame_dict_def)

text \<open>
  The table built from two series with different indexes, neither repeating a date:
  the sorted union of the dates, each series looked up date by date.
\<close>

lemma DataFrame_dict_union:
  assumes "ixA \<noteq> ixB" and "distinct ixA" and "distinct ixB"
  shows "DataFrame_dict E [(nA, (ixA, vsA)), (nB, (ixB, vsB))] =
     Inr \<lparr>index = sort (remdups (ixA @ ixB)),
          columns = [(nA, reindex (ixA, vsA) (sort (remdups (ixA @ ixB)))),
                     (nB, reindex (ixB, vsB) (sort (remdups (ixA @ ixB))))]\<rparr>"
  using assms by (auto simp: DataFrame_dict_def all_labels_def Let_def)

text \<open>
  A series that repeats a date, next to a series with a date that the first does not
  have: the constructor raises.
\<close>

lemma DataFrame_dict_repeated:
  assumes "\<not> distinct ixA" and "\<not> set ixB \<subseteq> set ixA"
  shows "DataFrame_dict E [(nA, (ixA, vsA)), (nB, (ixB, vsB))] =
     Inl (Exn ''ValueError'' ''cannot reindex on an axis with duplicate labels'')"
proof -
  have "ixA \<noteq> ixB" using assms(2) by auto
  moreover have "set ixA \<noteq> set (ixA @ ixB)" using assms(2) by auto
  ultimately show ?thesis
    using assms(1) by (simp add: DataFrame_dict_def all_labels_def)
qed

lemma DataFrame_dict_join:
  assumes ok: "ixA = ixB \<or> (distinct ixA \<and> distinct ixB)"
      and lenA: "length vsA = length ixA" and lenB: "length vsB = length ixB"
  shows "\<exists>ix colA colB.
           DataFrame_dict E [(nA, (ixA, vsA)), (nB, (ixB, vsB))] =
             Inr \<lparr>index = ix, columns = [(nA, colA), (nB, colB)]\<rparr>
         \<and> set ix = set ixA \<union> set ixB
         \<and> length colA = length ix \<and> length colB = length ix
         \<and> (\<forall>i < length ix. ix ! i \<notin> set ixB \<longrightarrow> colB ! i = None)
         \<and> (\<forall>i < length ix. ix ! i \<notin> set ixA \<longrightarrow> colA ! i = None)
         \<and> (\<forall>j < length ixA. \<exists>i < length ix. ix ! i = ixA ! j \<and> colA ! i = vsA ! j)
         \<and> (\<forall>j < length ixB. \<exists>i < length ix. ix ! i = ixB ! j \<and> colB ! i = vsB ! j)
         \<and> (ixA = ixB \<longrightarrow> ix = ixA \<and> colA = vsA \<and> colB = vsB)
         \<and> (ixA \<noteq> ixB \<longrightarrow> sorted ix)
         \<and> (distinct ixA \<and> distinct ixB \<longrightarrow>
              distinct ix
            \<and> (\<forall>i < length ix. \<forall>j < length ixA. ix ! i = ixA ! j \<longrightarrow> colA ! i = vsA ! j)
            \<and> (\<forall>i < length ix. \<forall>j < length ixB. ix ! i = ixB ! j \<longrightarrow> colB ! i = vsB ! j))"
proof (cases "ixA = ixB")
  case True
  have eq: "DataFrame_dict E [(nA, (ixA, vsA)), (nB, (ixB, vsB))] =
             Inr \<lparr>index = ixA, columns = [(nA, vsA), (nB, vsB)]\<rparr>"
    using True DataFrame_dict_same_index [of E nA ixA vsA nB vsB] by simp
  have align: "distinct ixA \<Longrightarrow>
      (\<forall>i < length ixA. \<forall>j < length ixA. ixA ! i = ixA ! j \<longrightarrow> vsA ! i = vsA ! j)
    \<and> (\<forall>i < length ixA. \<forall>j < length ixA. ixA ! i = ixA ! j \<longrightarrow> vsB ! i = vsB ! j)"
    by (auto simp: nth_eq_iff_index_eq)
  show ?thesis
  proof (intro exI conjI)
    show "DataFrame_dict E [(nA, (ixA, vsA)), (nB, (ixB, vsB))] =
             Inr \<lparr>index = ixA, columns = [(nA, vsA), (nB, vsB)]\<rparr>"
      by (rule eq)
    show "set ixA = set ixA \<union> set ixB"
      using True by simp
    show "length vsA = length ixA" by (rule lenA)
    show "length vsB = length ixA" using lenB True by simp
    show "\<forall>i < length ixA. ixA ! i \<notin> set ixB \<longrightarrow> vsB ! i = None"
      using True by simp
    show "\<forall>i < length ixA. ixA ! i \<notin> set ixA \<longrightarrow> vsA ! i = None"
      by simp
    show "\<forall>j < length ixA. \<exists>i < length ixA. ixA ! i = ixA ! j \<and> vsA ! i = vsA ! j"
      by blast
    show "\<forall>j < length ixB. \<exists>i < length ixA. ixA ! i = ixB ! j \<and> vsB ! i = vsB ! j"
      using True by blast
    show "ixA = ixB \<longrightarrow> ixA = ixA \<and> vsA = vsA \<and> vsB = vsB"
      by simp
    show "ixA \<noteq> ixB \<longrightarrow> sorted ixA"
      using True by simp
    show "distinct ixA \<and> distinct ixB \<longrightarrow>
              distinct ixA
            \<and> (\<forall>i < length ixA. \<forall>j < length ixA. ixA ! i = ixA ! j \<longrightarrow> vsA ! i = vsA ! j)
            \<and> (\<forall>i < length ixA. \<forall>j < length ixB. ixA ! i = ixB ! j \<longrightarrow> vsB ! i = vsB ! j)"
      using align unfolding True [symmetric] by blast
  qed
next
  case False
  then have dist: "distinct ixA" "distinct ixB"
    using ok by auto
  let ?ix = "sort (remdups (ixA @ ixB))"
  have eq: "DataFrame_dict E [(nA, (ixA, vsA)), (nB, (ixB, vsB))] =
             Inr \<lparr>index = ?ix,
                  columns = [(nA, reindex (ixA, vsA) ?ix), (nB, reindex (ixB, vsB) ?ix)]\<rparr>"
    using DataFrame_dict_union [OF False dist] .
  have set_ix: "set ?ix = set ixA \<union> set ixB"
    by simp
  have missB: "\<forall>i < length ?ix. ?ix ! i \<notin> set ixB \<longrightarrow> reindex (ixB, vsB) ?ix ! i = None"
    using reindex_missing [of _ "(ixB, vsB)" _ ?ix] by simp
  have missA: "\<forall>i < length ?ix. ?ix ! i \<notin> set ixA \<longrightarrow> reindex (ixA, vsA) ?ix ! i = None"
    using reindex_missing [of _ "(ixA, vsA)" _ ?ix] by simp
  have alignA: "\<forall>i < length ?ix. \<forall>j < length ixA. ?ix ! i = ixA ! j \<longrightarrow>
                  reindex (ixA, vsA) ?ix ! i = vsA ! j"
    using reindex_present [OF dist(1) lenA] by blast
  have alignB: "\<forall>i < length ?ix. \<forall>j < length ixB. ?ix ! i = ixB ! j \<longrightarrow>
                  reindex (ixB, vsB) ?ix ! i = vsB ! j"
    using reindex_present [OF dist(2) lenB] by blast
  have presA: "\<forall>j < length ixA. \<exists>i < length ?ix. ?ix ! i = ixA ! j
                 \<and> reindex (ixA, vsA) ?ix ! i = vsA ! j"
  proof (intro allI impI)
    fix j assume j: "j < length ixA"
    then have "ixA ! j \<in> set ?ix" by simp
    then obtain i where i: "i < length ?ix" "?ix ! i = ixA ! j"
      by (metis in_set_conv_nth)
    then show "\<exists>i < length ?ix. ?ix ! i = ixA ! j \<and> reindex (ixA, vsA) ?ix ! i = vsA ! j"
      using alignA j by blast
  qed
  have presB: "\<forall>j < length ixB. \<exists>i < length ?ix. ?ix ! i = ixB ! j
                 \<and> reindex (ixB, vsB) ?ix ! i = vsB ! j"
  proof (intro allI impI)
    fix j assume j: "j < length ixB"
    then have "ixB ! j \<in> set ?ix" by simp
    then obtain i where i: "i < length ?ix" "?ix ! i = ixB ! j"
      by (metis in_set_conv_nth)
    then show "\<exists>i < length ?ix. ?ix ! i = ixB ! j \<and> reindex (ixB, vsB) ?ix ! i = vsB ! j"
      using alignB j by blast
  qed
  have srt: "sorted ?ix" and dst: "distinct ?ix"
    by simp_all
  show ?thesis
  proof (intro exI conjI)
    show "DataFrame_dict E [(nA, (ixA, vsA)), (nB, (ixB, vsB))] =
             Inr \<lparr>index = ?ix,
                  columns = [(nA, reindex (ixA, vsA) ?ix), (nB, reindex (ixB, vsB) ?ix)]\<rparr>"
      by (rule eq)
    show "set ?ix = set ixA \<union> set ixB" by (rule set_ix)
    show "length (reindex (ixA, vsA) ?ix) = length ?ix" by (rule reindex_length)
    show "length (reindex (ixB, vsB) ?ix) = length ?ix" by (rule reindex_length)
    show "\<forall>i < length ?ix. ?ix ! i \<notin> set ixB \<longrightarrow> reindex (ixB, vsB) ?ix ! i = None"
      by (rule missB)
    show "\<forall>i < length ?ix. ?ix ! i \<notin> set ixA \<longrightarrow> reindex (ixA, vsA) ?ix ! i = None"
      by (rule missA)
    show "\<forall>j < length ixA. \<exists>i < length ?ix. ?ix ! i = ixA ! j
            \<and> reindex (ixA, vsA) ?ix ! i = vsA ! j"
      by (rule presA)
    show "\<forall>j < length ixB. \<exists>i < length ?ix. ?ix ! i = ixB ! j
            \<and> reindex (ixB, vsB) ?ix ! i = vsB ! j"
      by (rule presB)
    show "ixA = ixB \<longrightarrow> ?ix = ixA \<and> reindex (ixA, vsA) ?ix = vsA \<and> reindex (ixB, vsB) ?ix = vsB"
      using False by simp
    show "ixA \<noteq> ixB \<longrightarrow> sorted ?ix"
      using srt by simp
    show "distinct ixA \<and> distinct ixB \<longrightarrow>
              distinct ?ix
            \<and> (\<forall>i < length ?ix. \<forall>j < length ixA. ?ix ! i = ixA ! j \<longrightarrow>
                  reindex (ixA, vsA) ?ix ! i = vsA ! j)
            \<and> (\<forall>i < length ?ix. \<forall>j < length ixB. ?ix ! i = ixB ! j \<longrightarrow>
                  reindex (ixB, vsB) ?ix ! i = vsB ! j)"
      using dst alignA alignB by blast
  qed
qed

text \<open>Lines 192-209 in remote mode with a key, when both fetched columns have rows.\<close>

lemma load_data_two_columns:
  assumes "data_source cfg = ''FRED API''" and "truthy (fred_api_key cfg)"
      and "fetch_fred_data_api E ''DRCCLACBS'' (strftime_ymd (start_date cfg))
             (strftime_ymd (end_date cfg)) (fred_api_key cfg) w =
           (\<lparr>index = ixA, columns = [(''value'', vsA)]\<rparr>, w1)"
      and "fetch_fred_data_api E ''CORCCACBS'' (strftime_ymd (start_date cfg))
             (strftime_ymd (end_date cfg)) (fred_api_key cfg) w1 =
           (\<lparr>index = ixB, columns = [(''value'', vsB)]\<rparr>, w2)"
      and "ixA \<noteq> []" and "ixB \<noteq> []"
  shows "load_data E cfg w =
           (DataFrame_dict E [(name_delinquency, (ixA, vsA)), (name_chargeoff, (ixB, vsB))], w2)"
proof -
  have "fetch_all E SERIES_IDS cfg [] w =
          (Inr [(name_delinquency, (ixA, vsA)), (name_chargeoff, (ixB, vsB))], w2)"
    using fetch_all_SERIES_IDS [OF refl refl, of E cfg w] assms(3-6)
    by (simp add: empty_def)
  then show ?thesis
    using assms(1,2) by (simp add: load_data_def)
qed

text \<open>
  Claim C3, as amended. In remote mode with a key, let the two fetched columns have
  rows, the first with dates \<open>ixA\<close> and cells \<open>vsA\<close>, the second with dates \<open>ixB\<close> and
  cells \<open>vsB\<close> (one cell per date), and let the two date indexes be equal or both free
  of repeated dates. Then the table the Orchestrator builds is the outer join of the two
  columns on the date:
  \<^item> it has the two columns under their display names, each with one cell per row;
  \<^item> its dates are exactly the dates of the first column together with those of the
    second;
  \<^item> when no date is repeated, every date has one row only, and at the row of a date
    each column holds the value the fetched column has at that date, so a date that both
    have carries both values in one row;
  \<^item> at a date that a fetched column does not have, its cell is NaN; no row is dropped:
    every row of each fetched column is found at its date with its value;
  \<^item> when the indexes are equal the two columns are put side by side unchanged, and
    when they differ the rows are in increasing order of date.
  A column that repeats a date is not covered: next to a column with a date it does
  not have, line 209 raises \<^verbatim>\<open>ValueError\<close>, which nothing catches.
\<close>

theorem merge_outer_join:
  assumes "data_source cfg = ''FRED API''" and "truthy (fred_api_key cfg)"
      and "fetch_fred_data_api E ''DRCCLACBS'' (strftime_ymd (start_date cfg))
             (strftime_ymd (end_date cfg)) (fred_api_key cfg) w =
           (\<lparr>index = ixA, columns = [(''value'', vsA)]\<rparr>, w1)"
      and "fetch_fred_data_api E ''CORCCACBS'' (strftime_ymd (start_date cfg))
             (strftime_ymd (end_date cfg)) (fred_api_key cfg) w1 =
           (\<lparr>index = ixB, columns = [(''value'', vsB)]\<rparr>, w2)"
      and "ixA \<noteq> []" and "ixB \<noteq> []"
      and "ixA = ixB \<or> (distinct ixA \<and> distinct ixB)"
      and "length vsA = length ixA" and "length vsB = length ixB"
  shows "\<exists>ix colA colB.
           load_data E cfg w =
             (Inr \<lparr>index = ix, columns = [(name_delinquency, colA), (name_chargeoff, colB)]\<rparr>, w2)
         \<and> set ix = set ixA \<union> set ixB
         \<and> length colA = length ix \<and> length colB = length ix
         \<and> (\<forall>i < length ix. ix ! i \<notin> set ixB \<longrightarrow> colB ! i = None)
         \<and> (\<forall>i < length ix. ix ! i \<notin> set ixA \<longrightarrow> colA ! i = None)
         \<and> (\<forall>j < length ixA. \<exists>i < length ix. ix ! i = ixA ! j \<and> colA ! i = vsA ! j)
         \<and> (\<forall>j < length ixB. \<exists>i < length ix. ix ! i = ixB ! j \<and> colB ! i = vsB ! j)
         \<and> (ixA = ixB \<longrightarrow> ix = ixA \<and> colA = vsA \<and> colB = vsB)
         \<and> (ixA \<noteq> ixB \<longrightarrow> sorted ix)
         \<and> (distinct ixA \<and> distinct ixB \<longrightarrow>
              distinct ix
            \<and> (\<forall>i < length ix. \<forall>j < length ixA. ix ! i = ixA ! j \<longrightarrow> colA ! i = vsA ! j)
            \<and> (\<forall>i < length ix. \<forall>j < length ixB. ix ! i = ixB ! j \<longrightarrow> colB ! i = vsB ! j))"
proof -
  have ld: "load_data E cfg w =
      (DataFrame_dict E [(name_delinquency, (ixA, vsA)), (name_chargeoff, (ixB, vsB))], w2)"
    using load_data_two_columns [OF assms(1-6)] .
  obtain ix colA colB where
      eq: "DataFrame_dict E [(name_delinquency, (ixA, vsA)), (name_chargeoff, (ixB, vsB))] =
             Inr \<lparr>index = ix, columns = [(name_delinquency, colA), (name_chargeoff, colB)]\<rparr>"
    and rest: "set ix = set ixA \<union> set ixB
         \<and> length colA = length ix \<and> length colB = length ix
         \<and> (\<forall>i < length ix. ix ! i \<notin> set ixB \<longrightarrow> colB ! i = None)
         \<and> (\<forall>i < length ix. ix ! i \<notin> set ixA \<longrightarrow> colA ! i = None)
         \<and> (\<forall>j < length ixA. \<exists>i < length ix. ix ! i = ixA ! j \<and> colA ! i = vsA ! j)
         \<and> (\<forall>j < length ixB. \<exists>i < length ix. ix ! i = ixB ! j \<and> colB ! i = vsB ! j)
         \<and> (ixA = ixB \<longrightarrow> ix = ixA \<and> colA = vsA \<and> colB = vsB)
         \<and> (ixA \<noteq> ixB \<longrightarrow> sorted ix)
         \<and> (distinct ixA \<and> distinct ixB \<longrightarrow>
              distinct ix
            \<and> (\<forall>i < length ix. \<forall>j < length ixA. ix ! i = ixA ! j \<longrightarrow> colA ! i = vsA ! j)
            \<and> (\<forall>i < length ix. \<forall>j < length ixB. ix ! i = ixB ! j \<longrightarrow> colB ! i = vsB ! j))"
    using DataFrame_dict_join [OF assms(7-9), of E name_delinquency name_chargeoff] by blast
  have "load_data E cfg w =
      (Inr \<lparr>index = ix, columns = [(name_delinquency, colA), (name_chargeoff, colB)]\<rparr>, w2)"
    using ld eq by simp
  then show ?thesis
    using rest by blast
qed

text \<open>
  The mocked server sends January and February for the first series, February and
  March for the second: three rows in order, the second series missing in January, the
  first missing in March, and both values in the one row of February.
\<close>

lemma fetch_mock_join_A:
  "fetch_fred_data_api
     (mock_server [(''2020-01-31'', ''1.0''), (''2020-02-29'', ''2.0'')]
                  [(''2020-02-29'', ''3.0''), (''2020-03-31'', ''4.0'')])
     ''DRCCLACBS'' s e (Some ''key'') w =
   (\<lparr>index = [(2020, 1, 31), (2020, 2, 29)], columns = [(''value'', [Some 1, Some 2])]\<rparr>,
    emit (Http_get (fred_url ''DRCCLACBS'' s e (Some ''key''))) w)"
  by (simp add: fetch_fred_data_api_def fetch_try_def observations_frame_def
        to_numeric_coerce_def mock_server_def mock_env_def mock_observations_def mock_dates_def
        mock_prefix_def fred_url_def truthy_def Let_def)

lemma fetch_mock_join_B:
  "fetch_fred_data_api
     (mock_server [(''2020-01-31'', ''1.0''), (''2020-02-29'', ''2.0'')]
                  [(''2020-02-29'', ''3.0''), (''2020-03-31'', ''4.0'')])
     ''CORCCACBS'' s e (Some ''key'') w =
   (\<lparr>index = [(2020, 2, 29), (2020, 3, 31)], columns = [(''value'', [Some 3, Some 4])]\<rparr>,
    emit (Http_get (fred_url ''CORCCACBS'' s e (Some ''key''))) w)"
  by (simp add: fetch_fred_data_api_def fetch_try_def observations_frame_def
        to_numeric_coerce_def mock_server_def mock_env_def mock_observations_def mock_dates_def
        mock_prefix_def fred_url_def truthy_def Let_def)

lemma mock_config_simps:
  "data_source mock_config = ''FRED API''" "fred_api_key mock_config = Some ''key''"
  "start_date mock_config = (2020, 1, 1)" "end_date mock_config = (2020, 3, 31)"
  by (simp_all add: mock_config_def)

lemma load_data_mock_join:
  "fst (load_data
          (mock_server [(''2020-01-31'', ''1.0''), (''2020-02-29'', ''2.0'')]
                       [(''2020-02-29'', ''3.0''), (''2020-03-31'', ''4.0'')])
          mock_config mock_world) =
   Inr \<lparr>index = [(2020, 1, 31), (2020, 2, 29), (2020, 3, 31)],
        columns = [(name_delinquency, [Some 1, Some 2, None]),
                   (name_chargeoff, [None, Some 3, Some 4])]\<rparr>"
proof -
  have ne: "[(2020 :: nat, 1 :: nat, 31 :: nat), (2020, 2, 29)] \<noteq> []"
           "[(2020 :: nat, 2 :: nat, 29 :: nat), (2020, 3, 31)] \<noteq> []"
    by simp_all
  have k: "truthy (fred_api_key mock_config)"
    by (simp add: mock_config_simps truthy_def)
  have "load_data
          (mock_server [(''2020-01-31'', ''1.0''), (''2020-02-29'', ''2.0'')]
                       [(''2020-02-29'', ''3.0''), (''2020-03-31'', ''4.0'')])
          mock_config mock_world =
        (DataFrame_dict
           (mock_server [(''2020-01-31'', ''1.0''), (''2020-02-29'', ''2.0'')]
                        [(''2020-02-29'', ''3.0''), (''2020-03-31'', ''4.0'')])
           [(name_delinquency, ([(2020, 1, 31), (2020, 2, 29)], [Some 1, Some 2])),
            (name_chargeoff, ([(2020, 2, 29), (2020, 3, 31)], [Some 3, Some 4]))],
         emit (Http_get (fred_url ''CORCCACBS'' (strftime_ymd (start_date mock_config))
                 (strftime_ymd (end_date mock_config)) (Some ''key'')))
           (emit (Http_get (fred_url ''DRCCLACBS'' (strftime_ymd (start_date mock_config))
                    (strftime_ymd (end_date mock_config)) (Some ''key''))) mock_world))"
    by (rule load_data_two_columns [OF mock_config_simps(1) k _ _ ne])
       (simp_all only: mock_config_simps(2) fetch_mock_join_A fetch_mock_join_B)
  then show ?thesis
    by (simp add: DataFrame_dict_def all_labels_def reindex_def)
qed

theorem merge_outer_join_witness:
  "fst (load_data
          (mock_server [(''2020-01-31'', ''1.0''), (''2020-02-29'', ''2.0'')]
                       [(''2020-02-29'', ''3.0''), (''2020-03-31'', ''4.0'')])
          mock_config mock_world) =
   Inr \<lparr>index = [(2020, 1, 31), (2020, 2, 29), (2020, 3, 31)],
        columns = [(name_delinquency, [Some 1, Some 2, None]),
                   (name_chargeoff, [None, Some 3, Some 4])]\<rparr>
 \<and> (\<exists>ix colA colB.
       fst (load_data
              (mock_server [(''2020-01-31'', ''1.0''), (''2020-02-29'', ''2.0'')]
                           [(''2020-02-29'', ''3.0''), (''2020-03-31'', ''4.0'')])
              mock_config mock_world) =
       Inr \<lparr>index = ix, columns = [(name_delinquency, colA), (name_chargeoff, colB)]\<rparr>
     \<and> set ix = {(2020, 1, 31), (2020, 2, 29), (2020, 3, 31)}
     \<and> distinct ix \<and> sorted ix
     \<and> (\<forall>i < length ix. ix ! i = (2020, 1, 31) \<longrightarrow> colA ! i = Some 1 \<and> colB ! i = None)
     \<and> (\<forall>i < length ix. ix ! i = (2020, 2, 29) \<longrightarrow> colA ! i = Some 2 \<and> colB ! i = Some 3)
     \<and> (\<forall>i < length ix. ix ! i = (2020, 3, 31) \<longrightarrow> colA ! i = None \<and> colB ! i = Some 4))"
proof -
  let ?E = "mock_server [(''2020-01-31'', ''1.0''), (''2020-02-29'', ''2.0'')]
                        [(''2020-02-29'', ''3.0''), (''2020-03-31'', ''4.0'')]"
  let ?ixA = "[(2020 :: nat, 1 :: nat, 31 :: nat), (2020, 2, 29)]"
  let ?ixB = "[(2020 :: nat, 2 :: nat, 29 :: nat), (2020, 3, 31)]"
  let ?vsA = "[Some 1, Some (2 :: real)]"
  let ?vsB = "[Some 3, Some (4 :: real)]"
  have k: "truthy (fred_api_key mock_config)"
    by (simp add: mock_config_simps truthy_def)
  have fA: "fetch_fred_data_api ?E ''DRCCLACBS'' (strftime_ymd (start_date mock_config))
             (strftime_ymd (end_date mock_config)) (fred_api_key mock_config) mock_world =
           (\<lparr>index = ?ixA, columns = [(''value'', ?vsA)]\<rparr>,
            emit (Http_get (fred_url ''DRCCLACBS'' (strftime_ymd (start_date mock_config))
                    (strftime_ymd (end_date mock_config)) (Some ''key''))) mock_world)"
    by (simp only: mock_config_simps(2) fetch_mock_join_A)
  have fB: "fetch_fred_data_api ?E ''CORCCACBS'' (strftime_ymd (start_date mock_config))
             (strftime_ymd (end_date mock_config)) (fred_api_key mock_config)
             (emit (Http_get (fred_url ''DRCCLACBS'' (strftime_ymd (start_date mock_config))
                    (strftime_ymd (end_date mock_config)) (Some ''key''))) mock_world) =
           (\<lparr>index = ?ixB, columns = [(''value'', ?vsB)]\<rparr>,
            emit (Http_get (fred_url ''CORCCACBS'' (strftime_ymd (start_date mock_config))
                    (strftime_ymd (end_date mock_config)) (Some ''key'')))
              (emit (Http_get (fred_url ''DRCCLACBS'' (strftime_ymd (start_date mock_config))
                       (strftime_ymd (end_date mock_config)) (Some ''key''))) mock_world))"
    by (simp only: mock_config_simps(2) fetch_mock_join_B)
  have ne: "?ixA \<noteq> []" "?ixB \<noteq> []"
    by simp_all
  have ok: "?ixA = ?ixB \<or> (distinct ?ixA \<and> distinct ?ixB)"
    by simp
  have len: "length ?vsA = length ?ixA" "length ?vsB = length ?ixB"
    by simp_all
  obtain ix colA colB where
      eq: "load_data ?E mock_config mock_world =
             (Inr \<lparr>index = ix, columns = [(name_delinquency, colA), (name_chargeoff, colB)]\<rparr>,
              emit (Http_get (fred_url ''CORCCACBS'' (strftime_ymd (start_date mock_config))
                      (strftime_ymd (end_date mock_config)) (Some ''key'')))
                (emit (Http_get (fred_url ''DRCCLACBS'' (strftime_ymd (start_date mock_config))
                         (strftime_ymd (end_date mock_config)) (Some ''key''))) mock_world))"
    and s: "set ix = set ?ixA \<union> set ?ixB"
    and mb: "\<forall>i < length ix. ix ! i \<notin> set ?ixB \<longrightarrow> colB ! i = None"
    and ma: "\<forall>i < length ix. ix ! i \<notin> set ?ixA \<longrightarrow> colA ! i = None"
    and srt: "?ixA \<noteq> ?ixB \<longrightarrow> sorted ix"
    and al: "distinct ?ixA \<and> distinct ?ixB \<longrightarrow>
              distinct ix
            \<and> (\<forall>i < length ix. \<forall>j < length ?ixA. ix ! i = ?ixA ! j \<longrightarrow> colA ! i = ?vsA ! j)
            \<and> (\<forall>i < length ix. \<forall>j < length ?ixB. ix ! i = ?ixB ! j \<longrightarrow> colB ! i = ?vsB ! j)"
    using merge_outer_join [OF mock_config_simps(1) k fA fB ne ok len] by blast
  have dst: "distinct ix" and srt': "sorted ix"
    using al srt by simp_all
  have alA: "\<forall>i < length ix. \<forall>j < 2. ix ! i = ?ixA ! j \<longrightarrow> colA ! i = ?vsA ! j"
   and alB: "\<forall>i < length ix. \<forall>j < 2. ix ! i = ?ixB ! j \<longrightarrow> colB ! i = ?vsB ! j"
    using al by simp_all
  have a0: "\<forall>i < length ix. ix ! i = (2020, 1, 31) \<longrightarrow> colA ! i = Some 1"
    using alA [rule_format, of _ 0] by simp
  have a1: "\<forall>i < length ix. ix ! i = (2020, 2, 29) \<longrightarrow> colA ! i = Some 2"
    using alA [rule_format, of _ 1] by simp
  have b0: "\<forall>i < length ix. ix ! i = (2020, 2, 29) \<longrightarrow> colB ! i = Some 3"
    using alB [rule_format, of _ 0] by simp
  have b1: "\<forall>i < length ix. ix ! i = (2020, 3, 31) \<longrightarrow> colB ! i = Some 4"
    using alB [rule_format, of _ 1] by simp
  have mb': "\<forall>i < length ix. ix ! i = (2020, 1, 31) \<longrightarrow> colB ! i = None"
    using mb by simp
  have ma': "\<forall>i < length ix. ix ! i = (2020, 3, 31) \<longrightarrow> colA ! i = None"
    using ma by simp
  have s': "set ix = {(2020, 1, 31), (2020, 2, 29), (2020, 3, 31)}"
    using s by auto
  have eq': "fst (load_data ?E mock_config mock_world) =
       Inr \<lparr>index = ix, columns = [(name_delinquency, colA), (name_chargeoff, colB)]\<rparr>"
    using eq by simp
  have r1: "\<forall>i < length ix. ix ! i = (2020, 1, 31) \<longrightarrow> colA ! i = Some 1 \<and> colB ! i = None"
    using a0 mb' by blast
  have r2: "\<forall>i < length ix. ix ! i = (2020, 2, 29) \<longrightarrow> colA ! i = Some 2 \<and> colB ! i = Some 3"
    using a1 b0 by blast
  have r3: "\<forall>i < length ix. ix ! i = (2020, 3, 31) \<longrightarrow> colA ! i = None \<and> colB ! i = Some 4"
    using ma' b1 by blast
  show ?thesis
  proof (intro conjI exI)
    show "fst (load_data ?E mock_config mock_world) =
       Inr \<lparr>index = [(2020, 1, 31), (2020, 2, 29), (2020, 3, 31)],
            columns = [(name_delinquency, [Some 1, Some 2, None]),
                       (name_chargeoff, [None, Some 3, Some 4])]\<rparr>"
      by (rule load_data_mock_join)
    show "fst (load_data ?E mock_config mock_world) =
       Inr \<lparr>index = ix, columns = [(name_delinquency, colA), (name_chargeoff, colB)]\<rparr>"
      by (rule eq')
    show "set ix = {(2020, 1, 31), (2020, 2, 29), (2020, 3, 31)}" by (rule s')
    show "distinct ix" by (rule dst)
    show "sorted ix" by (rule srt')
    show "\<forall>i < length ix. ix ! i = (2020, 1, 31) \<longrightarrow> colA ! i = Some 1 \<and> colB ! i = None"
      by (rule r1)
    show "\<forall>i < length ix. ix ! i = (2020, 2, 29) \<longrightarrow> colA ! i = Some 2 \<and> colB ! i = Some 3"
      by (rule r2)
    show "\<forall>i < length ix. ix ! i = (2020, 3, 31) \<longrightarrow> colA ! i = None \<and> colB ! i = Some 4"
      by (rule r3)
  qed
qed

text \<open>
  The claim as first stated, for every pair of fetched columns, fails: when the mocked
  server sends the date of January twice for the first series and February for the
  second, both fetched columns have rows, and line 209 raises \<^verbatim>\<open>ValueError\<close> instead of
  building a table; the exception ends the script.
\<close>

lemma fetch_mock_repeated_A:
  "fetch_fred_data_api
     (mock_server [(''2020-01-31'', ''1.0''), (''2020-01-31'', ''2.0'')]
                  [(''2020-02-29'', ''3.0'')])
     ''DRCCLACBS'' s e (Some ''key'') w =
   (\<lparr>index = [(2020, 1, 31), (2020, 1, 31)], columns = [(''value'', [Some 1, Some 2])]\<rparr>,
    emit (Http_get (fred_url ''DRCCLACBS'' s e (Some ''key''))) w)"
  by (simp add: fetch_fred_data_api_def fetch_try_def observations_frame_def
        to_numeric_coerce_def mock_server_def mock_env_def mock_observations_def mock_dates_def
        mock_prefix_def fred_url_def truthy_def Let_def)

lemma fetch_mock_repeated_B:
  "fetch_fred_data_api
     (mock_server [(''2020-01-31'', ''1.0''), (''2020-01-31'', ''2.0'')]
                  [(''2020-02-29'', ''3.0'')])
     ''CORCCACBS'' s e (Some ''key'') w =
   (\<lparr>index = [(2020, 2, 29)], columns = [(''value'', [Some 3])]\<rparr>,
    emit (Http_get (fred_url ''CORCCACBS'' s e (Some ''key''))) w)"
  by (simp add: fetch_fred_data_api_def fetch_try_def observations_frame_def
        to_numeric_coerce_def mock_server_def mock_env_def mock_observations_def mock_dates_def
        mock_prefix_def fred_url_def truthy_def Let_def)

theorem merge_repeated_date_counterexample:
  "fst (fetch_fred_data_api
          (mock_server [(''2020-01-31'', ''1.0''), (''2020-01-31'', ''2.0'')]
                       [(''2020-02-29'', ''3.0'')])
          ''DRCCLACBS'' (strftime_ymd (start_date mock_config))
          (strftime_ymd (end_date mock_config)) (fred_api_key mock_config) mock_world) =
     \<lparr>index = [(2020, 1, 31), (2020, 1, 31)], columns = [(''value'', [Some 1, Some 2])]\<rparr>
 \<and> fst (fetch_fred_data_api
          (mock_server [(''2020-01-31'', ''1.0''), (''2020-01-31'', ''2.0'')]
                       [(''2020-02-29'', ''3.0'')])
          ''CORCCACBS'' (strftime_ymd (start_date mock_config))
          (strftime_ymd (end_date mock_config)) (fred_api_key mock_config) mock_world) =
     \<lparr>index = [(2020, 2, 29)], columns = [(''value'', [Some 3])]\<rparr>
 \<and> fst (load_data
          (mock_server [(''2020-01-31'', ''1.0''), (''2020-01-31'', ''2.0'')]
                       [(''2020-02-29'', ''3.0'')])
          mock_config mock_world) =
     Inl (Exn ''ValueError'' ''cannot reindex on an axis with duplicate labels'')
 \<and> fst (fetch_and_display
          (mock_server [(''2020-01-31'', ''1.0''), (''2020-01-31'', ''2.0'')]
                       [(''2020-02-29'', ''3.0'')])
          mock_config mock_world) =
     Some (Exn ''ValueError'' ''cannot reindex on an axis with duplicate labels'')"
proof -
  let ?E = "mock_server [(''2020-01-31'', ''1.0''), (''2020-01-31'', ''2.0'')]
                        [(''2020-02-29'', ''3.0'')]"
  have k: "truthy (fred_api_key mock_config)"
    by (simp add: mock_config_simps truthy_def)
  have ne: "[(2020 :: nat, 1 :: nat, 31 :: nat), (2020, 1, 31)] \<noteq> []"
           "[(2020 :: nat, 2 :: nat, 29 :: nat)] \<noteq> []"
    by simp_all
  have ld: "load_data ?E mock_config mock_world =
        (DataFrame_dict ?E
           [(name_delinquency, ([(2020, 1, 31), (2020, 1, 31)], [Some 1, Some 2])),
            (name_chargeoff, ([(2020, 2, 29)], [Some 3]))],
         emit (Http_get (fred_url ''CORCCACBS'' (strftime_ymd (start_date mock_config))
                 (strftime_ymd (end_date mock_config)) (Some ''key'')))
           (emit (Http_get (fred_url ''DRCCLACBS'' (strftime_ymd (start_date mock_config))
                    (strftime_ymd (end_date mock_config)) (Some ''key''))) mock_world))"
    by (rule load_data_two_columns [OF mock_config_simps(1) k _ _ ne])
       (simp_all only: mock_config_simps(2) fetch_mock_repeated_A fetch_mock_repeated_B)
  have raise: "fst (load_data ?E mock_config mock_world) =
      Inl (Exn ''ValueError'' ''cannot reindex on an axis with duplicate labels'')"
    using ld by (simp add: DataFrame_dict_repeated)
  have le: "start_date mock_config \<le> end_date mock_config"
    by (simp add: mock_config_simps)
  have "fst (fetch_and_display ?E mock_config mock_world) =
      Some (Exn ''ValueError'' ''cannot reindex on an axis with duplicate labels'')"
    using raise le
    by (cases "load_data ?E mock_config mock_world") (simp add: fetch_and_display_def)
  then show ?thesis
    using raise by (simp add: mock_config_simps(2) fetch_mock_repeated_A fetch_mock_repeated_B)
qed





end
